theory Spec2Isabelle
  imports Complex_Main
begin

section \<open>Planning utilities of the robot layer (\<^verbatim>\<open>src/robot/util.cpp\<close>)\<close>

text \<open>
  The functions of \<^verbatim>\<open>util.cpp\<close> orchestrate planners that live elsewhere
  (\<^verbatim>\<open>planSnap\<close>, \<^verbatim>\<open>planOMPL\<close>, \<^verbatim>\<open>planCRRTConnect\<close>, the vector-field planner, the
  inverse-kinematics sample generator).  Those collaborators are parameters of the model,
  collected in the record \<open>env\<close>: each of them is an arbitrary function of the world it
  can see, it may change that world, and it may throw.  The functions of \<^verbatim>\<open>util.cpp\<close>
  themselves are translated statement by statement.

  Doubles are modelled as real numbers.  Two places where doubles and reals part are
  modelled apart: the quotient whose divisor may be zero, in \<open>planToTSR\<close>, and Eigen's
  \<^verbatim>\<open>normalize()\<close>, which is a collaborator like the planners, so that nothing is taken
  for granted about the vector it leaves (in doubles it is not of length one exactly, it
  depends on the length of its argument in the last bits, and it is the zero vector when
  the squared norm overflows).  \<^verbatim>\<open>norm()\<close> is read in two comparisons only, with \<open>0\<close> and
  with \<open>10\<^sup>-\<^sup>6\<close>; the norm of the reals decides them as the doubles do, but for rounding
  at the second threshold and for vectors so short that their squared norm underflows.
  The calls of one planning function happen one after the other, and nothing else touches
  the world in between.
\<close>

subsection \<open>Data\<close>

text \<open>A state of the \<^verbatim>\<open>MetaSkeletonStateSpace\<close>: the vector of joint positions.\<close>

type_synonym state = "real list"

datatype trajectory = Interpolated "state list" | Spline "state list"

datatype error = RuntimeError string | DomainError string | Thrown string

text \<open>
  What a planning call can observe and change: the live joint positions of the
  \<^verbatim>\<open>MetaSkeleton\<close>, and the wall clock read by \<^verbatim>\<open>dart::common::Timer\<close>.  Anything else
  the collaborators use (random number generators, collision world) sits in the
  extension slot of the record.
\<close>

record world =
  positions :: state
  wallclock :: real

text \<open>
  Vectors, matrices (the triple of their rows), rigid transforms and task space regions.
  \<open>Bw\<close> is the 6 by 2 matrix of bounds, one row per axis.
\<close>

type_synonym vec3 = "real \<times> real \<times> real"
type_synonym mat3 = "vec3 \<times> vec3 \<times> vec3"

record isometry =
  rotation :: mat3
  translation :: vec3

record tsr =
  T0_w :: isometry
  Tw_e :: isometry
  Bw :: "(real \<times> real) list"

text \<open>
  The parameter structs.  The field \<^verbatim>\<open>maxNumTrials\<close> of the CRRT parameters is
  \<open>crrt_maxNumTrials\<close> here, apart from the parameter of \<open>planToTSR\<close> of that name; the
  random number generator of the struct belongs to the world.
\<close>

record vf_parameters =
  negativeDistanceTolerance :: real
  positiveDistanceTolerance :: real
  initialStepSize :: real
  jointLimitTolerance :: real
  constraintCheckResolution :: real

record crrt_parameters =
  crrt_maxNumTrials :: nat
  maxExtensionDistance :: real
  maxDistanceBtwProjections :: real
  minStepSize :: real
  minTreeConnectionDistance :: real
  projectionMaxIteration :: nat
  projectionTolerance :: real

text \<open>The arguments of one call of the vector-field planner.\<close>

record vf_call =
  vf_direction :: vec3
  vf_minDistance :: real
  vf_maxDistance :: real
  vf_positionTolerance :: real
  vf_angularTolerance :: real
  vf_initialStepSize :: real
  vf_jointLimitTolerance :: real
  vf_constraintCheckResolution :: real
  vf_timelimit :: real

text \<open>
  Every call of a collaborator is written to a log, with its arguments and with what it
  returned (\<open>Inl\<close> an exception, \<open>Inr None\<close> a null trajectory).  The log is threaded by
  the model only; collaborators never see it.  \<open>Delegate\<close> marks a call of
  \<open>planToConfiguration\<close> from \<open>planToTSR\<close>, with the goal, the reading of the wall clock and the
  time slice; \<open>TimerStart\<close> the start of the timer, with the reading of the wall clock.
\<close>

datatype event =
    SnapCall state state "error + trajectory option"
  | OMPLCall state state real real "error + trajectory option"
  | SampleCall real "error + state option"
  | TimerStart real
  | Delegate state real real
  | VFCall vf_call "error + trajectory option"
  | CRRTCall tsr tsr real crrt_parameters "error + trajectory option"


fun is_OMPLCall :: "event \<Rightarrow> bool" where
  "is_OMPLCall (OMPLCall s g budget res r) = True"
| "is_OMPLCall e = False"

text \<open>
  The collaborators.  \<open>'g\<close> is the private state of the sample generator made by
  \<^verbatim>\<open>ikSampleable.createSampleGenerator()\<close>; \<open>'w\<close> is the world.
  \<^item> \<open>planSnap start goal\<close> and \<open>planOMPL start goal timelimit resolution\<close> are the
    two planners of \<^verbatim>\<open>planToConfiguration\<close>;
  \<^item> \<open>canSample\<close> and \<open>sample\<close> are the generator's methods; \<open>sample\<close> returns the
    state it wrote into \<^verbatim>\<open>goalState\<close>, or \<open>None\<close> when it returned \<^verbatim>\<open>false\<close>;
  \<^item> \<open>planVF\<close> is \<^verbatim>\<open>planner::vectorfield::planToEndEffectorOffset\<close>, \<open>planCRRT\<close> is
    everything \<^verbatim>\<open>planToTSRwithTrajectoryConstraint\<close> does between taking its arguments
    and returning what \<^verbatim>\<open>planCRRTConnect\<close> gave;
  \<^item> \<open>getWorldTransform\<close> is \<^verbatim>\<open>bodyNode->getWorldTransform()\<close>;
  \<^item> \<open>fromTwoVectors a b\<close> is Eigen's
    \<^verbatim>\<open>Quaterniond::FromTwoVectors(a, b).toRotationMatrix()\<close>;
  \<^item> \<open>normalized v\<close> is the vector that Eigen's \<^verbatim>\<open>v.normalize()\<close> leaves in \<open>v\<close>.
\<close>

record ('g, 'w) env =
  planSnap :: "state \<Rightarrow> state \<Rightarrow> 'w \<Rightarrow> (error + trajectory option) \<times> 'w"
  planOMPL :: "state \<Rightarrow> state \<Rightarrow> real \<Rightarrow> real \<Rightarrow> 'w \<Rightarrow> (error + trajectory option) \<times> 'w"
  createSampleGenerator :: "'w \<Rightarrow> 'g"
  canSample :: "'g \<Rightarrow> bool"
  sample :: "'g \<Rightarrow> 'w \<Rightarrow> (error + state option) \<times> 'g \<times> 'w"
  planVF :: "vf_call \<Rightarrow> 'w \<Rightarrow> (error + trajectory option) \<times> 'w"
  planCRRT :: "tsr \<Rightarrow> tsr \<Rightarrow> real \<Rightarrow> crrt_parameters \<Rightarrow> 'w \<Rightarrow> (error + trajectory option) \<times> 'w"
  getWorldTransform :: "'w \<Rightarrow> isometry"
  fromTwoVectors :: "vec3 \<Rightarrow> vec3 \<Rightarrow> mat3"
  normalized :: "vec3 \<Rightarrow> vec3"

subsection \<open>The mutex of the skeleton\<close>

text \<open>
  \<^verbatim>\<open>robot->getMutex()\<close> is a \<^verbatim>\<open>std::mutex\<close>, which is not recursive: a thread that
  locks it while it holds it never gets it.  The flag \<open>held\<close> says whether the calling
  thread holds the mutex when a function is called.
  \<^verbatim>\<open>std::lock_guard<std::mutex> lock(robot->getMutex());\<close> with the flag set is a
  call that never returns, the value \<open>None\<close>; otherwise the rest of the scope runs with
  the mutex held, and the mutex is free again when the scope is left.

  The flag is a parameter of the three functions that \<^verbatim>\<open>util.cpp\<close> reaches with the
  mutex held or that lead there: \<open>planToEndEffectorOffset\<close>, which keeps its lock to its
  end, its fallback \<open>planToEndEffectorOffsetByCRRT\<close>, and
  \<open>planToTSRwithTrajectoryConstraint\<close>, which the fallback calls.
  \<open>planToConfiguration\<close>, \<open>planToConfigurations\<close> and \<open>planToTSR\<close> are modelled for a
  caller that does not hold the mutex, so that their guards lock at once; the only call
  of one of them inside \<^verbatim>\<open>util.cpp\<close>, that of \<open>planToConfiguration\<close> by \<open>planToTSR\<close>, comes
  after the scoped lock of the loop body is released.
\<close>

definition lock_guard :: "bool \<Rightarrow> (bool \<Rightarrow> 'r option) \<Rightarrow> 'r option" where
  "lock_guard held scope = (if held then None else scope True)"

subsection \<open>The scoped state saver\<close>

text \<open>
  \<^verbatim>\<open>auto saver = MetaSkeletonStateSaver(metaSkeleton);\<close> reads the positions where it
  is declared, and its destructor writes them back when the enclosing function is left,
  by \<^verbatim>\<open>return\<close> or by an exception.  \<open>body\<close> is the rest of the function after the
  declaration.
\<close>

definition restore :: "state \<Rightarrow> 'r \<times> 'a world_scheme \<times> 'l \<Rightarrow> 'r \<times> 'a world_scheme \<times> 'l" where
  "restore saved out = (case out of (r, w', l) \<Rightarrow> (r, w'\<lparr>positions := saved\<rparr>, l))"

definition MetaSkeletonStateSaver ::
  "('a world_scheme \<Rightarrow> 'r \<times> 'a world_scheme \<times> 'l) \<Rightarrow> 'a world_scheme \<Rightarrow> 'r \<times> 'a world_scheme \<times> 'l" where
  "MetaSkeletonStateSaver body w = (let saved = positions w in restore saved (body w))"

subsection \<open>\<^verbatim>\<open>planToConfiguration\<close>\<close>

definition collisionResolution :: real where
  "collisionResolution = 0.1"

definition planToConfiguration ::
  "('g, 'a world_scheme) env \<Rightarrow> state \<Rightarrow> real \<Rightarrow> 'a world_scheme \<Rightarrow> event list
     \<Rightarrow> (error + trajectory option) \<times> 'a world_scheme \<times> event list" where
  "planToConfiguration env goalState timelimit w0 calls =
     MetaSkeletonStateSaver (\<lambda>w.
       let startState = positions w;
           (r1, w1) = planSnap env startState goalState w;
           calls1 = calls @ [SnapCall startState goalState r1]
       in case r1 of
            Inl e \<Rightarrow> (Inl e, w1, calls1)
          | Inr (Some untimedTrajectory) \<Rightarrow> (Inr (Some untimedTrajectory), w1, calls1)
          | Inr None \<Rightarrow>
              (let (r2, w2) = planOMPL env startState goalState timelimit collisionResolution w1;
                   calls2 = calls1 @ [OMPLCall startState goalState timelimit collisionResolution r2]
               in (r2, w2, calls2))) w0"


subsection \<open>\<^verbatim>\<open>planToConfigurations\<close>\<close>

text \<open>
  The \<^verbatim>\<open>for\<close> loop over \<^verbatim>\<open>goalStates\<close>.  Its body leaves the function on every path
  (the \<^verbatim>\<open>return untimedTrajectory;\<close> after \<^verbatim>\<open>planOMPL\<close> is unconditional), so the
  remaining goal states are never looked at; \<^verbatim>\<open>return nullptr\<close> after the loop is reached
  for the empty vector only.
\<close>

fun planToConfigurations_loop ::
  "('g, 'a world_scheme) env \<Rightarrow> state \<Rightarrow> state list \<Rightarrow> real \<Rightarrow> 'a world_scheme \<Rightarrow> event list
     \<Rightarrow> (error + trajectory option) \<times> 'a world_scheme \<times> event list" where
  "planToConfigurations_loop env startState [] timelimit w calls = (Inr None, w, calls)"
| "planToConfigurations_loop env startState (goalState # remaining) timelimit w calls =
     (let (r1, w1) = planSnap env startState goalState w;
          calls1 = calls @ [SnapCall startState goalState r1]
      in case r1 of
           Inl e \<Rightarrow> (Inl e, w1, calls1)
         | Inr (Some untimedTrajectory) \<Rightarrow> (Inr (Some untimedTrajectory), w1, calls1)
         | Inr None \<Rightarrow>
             (let (r2, w2) = planOMPL env startState goalState timelimit collisionResolution w1;
                  calls2 = calls1 @ [OMPLCall startState goalState timelimit collisionResolution r2]
              in (r2, w2, calls2)))"

definition planToConfigurations ::
  "('g, 'a world_scheme) env \<Rightarrow> state list \<Rightarrow> real \<Rightarrow> 'a world_scheme \<Rightarrow> event list
     \<Rightarrow> (error + trajectory option) \<times> 'a world_scheme \<times> event list" where
  "planToConfigurations env goalStates timelimit w0 calls =
     MetaSkeletonStateSaver (\<lambda>w.
       let startState = positions w
       in planToConfigurations_loop env startState goalStates timelimit w calls) w0"

subsection \<open>\<^verbatim>\<open>planToTSR\<close>\<close>

definition maxSnapSamples :: nat where
  "maxSnapSamples = 100"

text \<open>
  \<^verbatim>\<open>double timelimitPerSample = timelimit / maxNumTrials;\<close> divides by a count that
  may be zero.  Then the double quotient is no number that a real can stand for (\<open>None\<close>):
  it is \<open>+\<infinity>\<close> for a positive \<open>timelimit\<close>, and \<open>-\<infinity>\<close> or NaN otherwise.  The quotient is
  read in one place, \<^verbatim>\<open>std::min(timelimitPerSample, timelimit - timer.getElapsedTime())\<close>
  in the body of the second loop, and that body runs only when \<open>timelimit\<close> is positive
  (the first reading of the timer is not below zero; lemma \<open>timed_phase_no_time\<close> below).
  So \<open>None\<close> is read only where it stands for \<open>+\<infinity>\<close>, and \<^verbatim>\<open>std::min\<close> of \<open>+\<infinity>\<close> and \<open>x\<close>
  is \<open>x\<close>.
\<close>

definition double_quotient :: "real \<Rightarrow> nat \<Rightarrow> real option" where
  "double_quotient x n = (if n = 0 then None else Some (x / real n))"

fun std_min :: "real option \<Rightarrow> real \<Rightarrow> real" where
  "std_min None x = x"
| "std_min (Some p) x = min p x"

text \<open>
  The second loop of \<^verbatim>\<open>planToTSR\<close>, entered with the timer started at wall-clock time
  \<open>t0\<close>.  A sample that fails takes the \<^verbatim>\<open>continue\<close>.  Nothing in the code bounds the
  number of iterations, so the loop is a partial function: \<open>None\<close> is a run that never
  leaves the loop.
\<close>

partial_function (option) timed_loop ::
  "('g, 'a world_scheme) env \<Rightarrow> state \<Rightarrow> real \<Rightarrow> real option \<Rightarrow> real \<Rightarrow> 'g \<Rightarrow> 'a world_scheme \<Rightarrow> event list
     \<Rightarrow> ((error + trajectory option) \<times> 'a world_scheme \<times> event list) option" where
  "timed_loop env startState timelimit timelimitPerSample t0 g w calls =
     (if wallclock w - t0 < timelimit \<and> canSample env g then
        (case sample env g w of (sampled, g', w1) \<Rightarrow>
           (case sampled of
              Inl e \<Rightarrow> Some (Inl e, w1, calls @ [SampleCall (wallclock w) sampled])
            | Inr None \<Rightarrow> \<comment> \<open>\<^verbatim>\<open>if (!sampled) continue;\<close>\<close>
                timed_loop env startState timelimit timelimitPerSample t0 g' w1
                  (calls @ [SampleCall (wallclock w) sampled])
            | Inr (Some goalState) \<Rightarrow>
                (let w2 = w1\<lparr>positions := startState\<rparr>; \<comment> \<open>\<^verbatim>\<open>space->setState(metaSkeleton.get(), startState)\<close>\<close>
                     now = wallclock w2;
                     slice = std_min timelimitPerSample (timelimit - (now - t0));
                     calls2 = calls @ [SampleCall (wallclock w) sampled, Delegate goalState now slice]
                 in case planToConfiguration env goalState slice w2 calls2 of
                      (traj, w3, calls3) \<Rightarrow>
                        (case traj of
                           Inl e \<Rightarrow> Some (Inl e, w3, calls3)
                         | Inr (Some found) \<Rightarrow> Some (Inr (Some found), w3, calls3)
                         | Inr None \<Rightarrow>
                             timed_loop env startState timelimit timelimitPerSample t0 g' w3 calls3))))
      else Some (Inr None, w, calls))"

text \<open>\<^verbatim>\<open>dart::common::Timer timer; timer.start();\<close> and the loop that follows.\<close>

definition timed_phase ::
  "('g, 'a world_scheme) env \<Rightarrow> state \<Rightarrow> real \<Rightarrow> real option \<Rightarrow> 'g \<Rightarrow> 'a world_scheme \<Rightarrow> event list
     \<Rightarrow> ((error + trajectory option) \<times> 'a world_scheme \<times> event list) option" where
  "timed_phase env startState timelimit timelimitPerSample g w calls =
     timed_loop env startState timelimit timelimitPerSample (wallclock w) g w
       (calls @ [TimerStart (wallclock w)])"

text \<open>
  The first loop (\<^verbatim>\<open>HACK: try lots of snap plans first\<close>).  \<^verbatim>\<open>snapSamples\<close> counts the
  samples that succeeded; a failed sample takes the \<^verbatim>\<open>continue\<close> without counting.
  \<^verbatim>\<open>convertStateToPositions\<close> fills a local vector that is not read again.
\<close>

partial_function (option) snap_loop ::
  "('g, 'a world_scheme) env \<Rightarrow> state \<Rightarrow> real \<Rightarrow> real option \<Rightarrow> nat \<Rightarrow> 'g \<Rightarrow> 'a world_scheme \<Rightarrow> event list
     \<Rightarrow> ((error + trajectory option) \<times> 'a world_scheme \<times> event list) option" where
  "snap_loop env startState timelimit timelimitPerSample snapSamples g w calls =
     (if snapSamples < maxSnapSamples \<and> canSample env g then
        (case sample env g w of (sampled, g', w1) \<Rightarrow>
           (case sampled of
              Inl e \<Rightarrow> Some (Inl e, w1, calls @ [SampleCall (wallclock w) sampled])
            | Inr None \<Rightarrow> \<comment> \<open>\<^verbatim>\<open>if (!sampled) continue;\<close>\<close>
                snap_loop env startState timelimit timelimitPerSample snapSamples g' w1
                  (calls @ [SampleCall (wallclock w) sampled])
            | Inr (Some goalState) \<Rightarrow>
                (let w2 = w1\<lparr>positions := startState\<rparr>; \<comment> \<open>\<^verbatim>\<open>space->setState(metaSkeleton.get(), startState)\<close>\<close>
                     (traj, w3) = planSnap env startState goalState w2;
                     calls3 = calls @ [SampleCall (wallclock w) sampled,
                                       SnapCall startState goalState traj]
                 in case traj of
                      Inl e \<Rightarrow> Some (Inl e, w3, calls3)
                    | Inr (Some found) \<Rightarrow> Some (Inr (Some found), w3, calls3)
                    | Inr None \<Rightarrow> \<comment> \<open>\<^verbatim>\<open>++snapSamples\<close> came before the attempt\<close>
                        snap_loop env startState timelimit timelimitPerSample (Suc snapSamples)
                          g' w3 calls3)))
      else timed_phase env startState timelimit timelimitPerSample g w calls)"

text \<open>
  \<^verbatim>\<open>planToTSR\<close>.  The generator is created, the start state read and the time slice
  computed before the saver is declared; none of them writes to the skeleton.  The scoped
  locks of the two loop bodies are taken with the mutex free and released before any
  planner is called.
\<close>

definition planToTSR ::
  "('g, 'a world_scheme) env \<Rightarrow> real \<Rightarrow> nat \<Rightarrow> 'a world_scheme \<Rightarrow> event list
     \<Rightarrow> ((error + trajectory option) \<times> 'a world_scheme \<times> event list) option" where
  "planToTSR env timelimit maxNumTrials w calls =
     (let generator = createSampleGenerator env w;
          startState = positions w;
          timelimitPerSample = double_quotient timelimit maxNumTrials;
          saved = positions w
      in map_option (restore saved)
           (snap_loop env startState timelimit timelimitPerSample 0 generator w calls))"

subsection \<open>Vectors and transforms (the part of Eigen that \<^verbatim>\<open>util.cpp\<close> uses)\<close>

definition UnitZ :: vec3 where
  "UnitZ = (0, 0, 1)"

fun norm3 :: "vec3 \<Rightarrow> real" where
  "norm3 (x, y, z) = sqrt (x * x + y * y + z * z)"

fun scale3 :: "real \<Rightarrow> vec3 \<Rightarrow> vec3" where
  "scale3 c (x, y, z) = (c * x, c * y, c * z)"

fun neg3 :: "vec3 \<Rightarrow> vec3" where
  "neg3 (x, y, z) = (- x, - y, - z)"

fun add3 :: "vec3 \<Rightarrow> vec3 \<Rightarrow> vec3" where
  "add3 (x, y, z) (x', y', z') = (x + x', y + y', z + z')"

fun dot3 :: "vec3 \<Rightarrow> vec3 \<Rightarrow> real" where
  "dot3 (x, y, z) (x', y', z') = x * x' + y * y' + z * z'"

text \<open>
  The normalized vector in exact arithmetic: every component divided by the norm.  The
  code does not compute it; it is what \<^verbatim>\<open>normalize()\<close> approximates.
\<close>

fun normalize3 :: "vec3 \<Rightarrow> vec3" where
  "normalize3 (x, y, z) = (x / norm3 (x, y, z), y / norm3 (x, y, z), z / norm3 (x, y, z))"

text \<open>A matrix is the triple of its rows.\<close>

definition Identity3 :: mat3 where
  "Identity3 = ((1, 0, 0), (0, 1, 0), (0, 0, 1))"

fun transpose3 :: "mat3 \<Rightarrow> mat3" where
  "transpose3 ((a, b, c), (d, e, f), (g, h, i)) = ((a, d, g), (b, e, h), (c, f, i))"

fun mat_vec :: "mat3 \<Rightarrow> vec3 \<Rightarrow> vec3" where
  "mat_vec (r1, r2, r3) v = (dot3 r1 v, dot3 r2 v, dot3 r3 v)"

fun mat_mult :: "mat3 \<Rightarrow> mat3 \<Rightarrow> mat3" where
  "mat_mult (r1, r2, r3) m =
     (mat_vec (transpose3 m) r1, mat_vec (transpose3 m) r2, mat_vec (transpose3 m) r3)"

definition Identity :: isometry where
  "Identity = \<lparr>rotation = Identity3, translation = (0, 0, 0)\<rparr>"

text \<open>The direction of the z-axis of a frame: the third column of its rotation.\<close>

definition z_axis :: "isometry \<Rightarrow> vec3" where
  "z_axis H = mat_vec (rotation H) UnitZ"

text \<open>\<^verbatim>\<open>A * B\<close> on \<^verbatim>\<open>Isometry3d\<close>.\<close>

definition iso_mult :: "isometry \<Rightarrow> isometry \<Rightarrow> isometry" where
  "iso_mult A B =
     \<lparr>rotation = mat_mult (rotation A) (rotation B),
      translation = add3 (mat_vec (rotation A) (translation B)) (translation A)\<rparr>"

text \<open>
  \<^verbatim>\<open>A.inverse()\<close> on \<^verbatim>\<open>Isometry3d\<close>: the transform is taken to be rigid, so the
  linear part is transposed.
\<close>

definition iso_inverse :: "isometry \<Rightarrow> isometry" where
  "iso_inverse A =
     \<lparr>rotation = transpose3 (rotation A),
      translation = neg3 (mat_vec (transpose3 (rotation A)) (translation A))\<rparr>"

subsection \<open>\<^verbatim>\<open>getLookAtIsometry\<close> and the offset TSRs\<close>

definition getLookAtIsometry ::
  "('g, 'w) env \<Rightarrow> vec3 \<Rightarrow> vec3 \<Rightarrow> error + isometry" where
  "getLookAtIsometry env positionFrom positionTo =
     (if norm3 positionTo < 1 / 10 ^ 6
      then Inl (RuntimeError ''positionTo cannot be a zero vector.'')
      else Inr (Identity\<lparr>translation := positionFrom,
                         rotation := fromTwoVectors env UnitZ positionTo\<rparr>))"

text \<open>
  A \<^verbatim>\<open>TSRPtr\<close> is an address in a store of TSR objects, or null.  The two pointers
  handed to the builder may be the same address.
\<close>

type_synonym TSRPtr = "nat option"
type_synonym tsr_store = "nat \<Rightarrow> tsr"

definition default_tsr :: tsr where
  "default_tsr = \<lparr>T0_w = Identity, Tw_e = Identity, Bw = replicate 6 (0, 0)\<rparr>"

text \<open>A store in which every address holds a default-constructed TSR.\<close>

definition empty_store :: tsr_store where
  "empty_store a = default_tsr"

definition getGoalAndConstraintTSRForEndEffectorOffset ::
  "('g, 'w) env \<Rightarrow> 'w \<Rightarrow> vec3 \<Rightarrow> real \<Rightarrow> TSRPtr \<Rightarrow> TSRPtr \<Rightarrow> real \<Rightarrow> real \<Rightarrow> tsr_store
     \<Rightarrow> error + bool \<times> tsr_store" where
  "getGoalAndConstraintTSRForEndEffectorOffset env w direction distance goal constraint
       positionTolerance angularTolerance store =
     (case (goal, constraint) of
        (Some g, Some c) \<Rightarrow>
          (let H_world_ee = getWorldTransform env w
           in case getLookAtIsometry env (translation H_world_ee) direction of
                Inl e \<Rightarrow> Inl e
              | Inr H_world_w \<Rightarrow>
                  (let H_w_ee = iso_mult (iso_inverse H_world_w) H_world_ee;
                       Hw_end = Identity\<lparr>translation :=
                                  (fst (translation Identity), fst (snd (translation Identity)), distance)\<rparr>;
                       store1 = store(g := (store g)\<lparr>T0_w := iso_mult H_world_w Hw_end\<rparr>);
                       store2 = store1(g := (store1 g)\<lparr>Tw_e := H_w_ee\<rparr>);
                       store3 = store2(g := (store2 g)\<lparr>Bw := replicate 6 (0, 0)\<rparr>);
                       store4 = store3(c := (store3 c)\<lparr>T0_w := H_world_w\<rparr>);
                       store5 = store4(c := (store4 c)\<lparr>Tw_e := H_w_ee\<rparr>);
                       store6 = store5(c := (store5 c)\<lparr>Bw :=
                                  [(- positionTolerance, positionTolerance),
                                   (- positionTolerance, positionTolerance),
                                   (0, distance),
                                   (- angularTolerance, angularTolerance),
                                   (- angularTolerance, angularTolerance),
                                   (- angularTolerance, angularTolerance)]\<rparr>)
                   in Inr (True, store6)))
      | _ \<Rightarrow> Inr (False, store))"

subsection \<open>\<^verbatim>\<open>planToTSRwithTrajectoryConstraint\<close>\<close>

text \<open>
  The function locks the mutex and declares the saver.  After that it builds the
  samplers, the goal test and the projection from its arguments and calls
  \<^verbatim>\<open>planCRRTConnect\<close>; all of that is the collaborator \<open>planCRRT\<close>.
\<close>

definition planToTSRwithTrajectoryConstraint ::
  "('g, 'a world_scheme) env \<Rightarrow> bool \<Rightarrow> tsr \<Rightarrow> tsr \<Rightarrow> real \<Rightarrow> crrt_parameters
     \<Rightarrow> 'a world_scheme \<Rightarrow> event list
     \<Rightarrow> ((error + trajectory option) \<times> 'a world_scheme \<times> event list) option" where
  "planToTSRwithTrajectoryConstraint env held goalTsr constraintTsr timelimit crrtParameters
       w0 calls =
     lock_guard held (\<lambda>locked.
       Some (MetaSkeletonStateSaver (\<lambda>w.
         let (traj, w1) = planCRRT env goalTsr constraintTsr timelimit crrtParameters w
         in (traj, w1, calls @ [CRRTCall goalTsr constraintTsr timelimit crrtParameters traj]))
         w0))"

subsection \<open>\<^verbatim>\<open>planToEndEffectorOffsetByCRRT\<close> and \<^verbatim>\<open>planToEndEffectorOffset\<close>\<close>

text \<open>
  \<open>planToEndEffectorOffsetByCRRT\<close> takes no lock and declares no saver; what it does with
  the mutex is what \<open>planToTSRwithTrajectoryConstraint\<close> does at the end.  The two
  \<^verbatim>\<open>std::make_shared<TSR>()\<close> give two fresh objects, here at the addresses 0 and 1 of a
  store local to the call.
\<close>

definition planToEndEffectorOffsetByCRRT ::
  "('g, 'a world_scheme) env \<Rightarrow> bool \<Rightarrow> vec3 \<Rightarrow> real \<Rightarrow> real \<Rightarrow> real \<Rightarrow> real
     \<Rightarrow> crrt_parameters \<Rightarrow> 'a world_scheme \<Rightarrow> event list
     \<Rightarrow> ((error + trajectory option) \<times> 'a world_scheme \<times> event list) option" where
  "planToEndEffectorOffsetByCRRT env held direction distance timelimit positionTolerance
       angularTolerance crrtParameters w calls =
     (if norm3 direction = 0
      then Some (Inl (RuntimeError ''Direction vector is a zero vector''), w, calls)
      else
        (let directionCopy = normalized env direction; \<comment> \<open>\<^verbatim>\<open>directionCopy.normalize();\<close>\<close>
             flip = (distance < 0);
             distance' = (if flip then - distance else distance);
             directionCopy' = (if flip then neg3 directionCopy else directionCopy);
             goalTsr = Some 0;
             constraintTsr = Some (Suc 0);
             store = empty_store
         in case getGoalAndConstraintTSRForEndEffectorOffset env w directionCopy' distance'
                   goalTsr constraintTsr positionTolerance angularTolerance store of
              Inl e \<Rightarrow> Some (Inl e, w, calls)
            | Inr (success, store') \<Rightarrow>
                if \<not> success then Some (Inl (RuntimeError ''failed in creating TSR''), w, calls)
                else planToTSRwithTrajectoryConstraint env held (store' 0) (store' (Suc 0))
                       timelimit crrtParameters w calls))"

text \<open>
  \<open>planToEndEffectorOffset\<close> locks the mutex for the whole of its body, so its fallback
  is called with the mutex held.
\<close>

definition planToEndEffectorOffset ::
  "('g, 'a world_scheme) env \<Rightarrow> bool \<Rightarrow> vec3 \<Rightarrow> real \<Rightarrow> real \<Rightarrow> real \<Rightarrow> real
     \<Rightarrow> vf_parameters \<Rightarrow> crrt_parameters \<Rightarrow> 'a world_scheme \<Rightarrow> event list
     \<Rightarrow> ((error + trajectory option) \<times> 'a world_scheme \<times> event list) option" where
  "planToEndEffectorOffset env held direction distance timelimit positionTolerance
       angularTolerance vfParameters crrtParameters w0 calls =
     lock_guard held (\<lambda>locked.
       let saved = positions w0 \<comment> \<open>\<^verbatim>\<open>auto saver = MetaSkeletonStateSaver(metaSkeleton);\<close>\<close>
       in map_option (restore saved)
         (let minDistance = distance - negativeDistanceTolerance vfParameters;
              maxDistance = distance + positiveDistanceTolerance vfParameters;
              args = \<lparr>vf_direction = direction,
                      vf_minDistance = minDistance,
                      vf_maxDistance = maxDistance,
                      vf_positionTolerance = positionTolerance,
                      vf_angularTolerance = angularTolerance,
                      vf_initialStepSize = initialStepSize vfParameters,
                      vf_jointLimitTolerance = jointLimitTolerance vfParameters,
                      vf_constraintCheckResolution = constraintCheckResolution vfParameters,
                      vf_timelimit = timelimit\<rparr>;
              (traj, w1) = planVF env args w0;
              calls1 = calls @ [VFCall args traj]
          in case traj of
               Inl e \<Rightarrow> Some (Inl e, w1, calls1)
             | Inr (Some found) \<Rightarrow> Some (Inr (Some found), w1, calls1)
             | Inr None \<Rightarrow>
                 planToEndEffectorOffsetByCRRT env locked direction distance timelimit
                   positionTolerance angularTolerance crrtParameters w1 calls1))"

text \<open>
  The arguments with which \<open>planToEndEffectorOffset\<close> calls the vector-field planner, and
  the exception of \<open>planToEndEffectorOffsetByCRRT\<close> for a zero direction.
\<close>

definition vf_args ::
  "vec3 \<Rightarrow> real \<Rightarrow> real \<Rightarrow> real \<Rightarrow> real \<Rightarrow> vf_parameters \<Rightarrow> vf_call" where
  "vf_args direction distance timelimit positionTolerance angularTolerance vfParameters =
     \<lparr>vf_direction = direction,
      vf_minDistance = distance - negativeDistanceTolerance vfParameters,
      vf_maxDistance = distance + positiveDistanceTolerance vfParameters,
      vf_positionTolerance = positionTolerance,
      vf_angularTolerance = angularTolerance,
      vf_initialStepSize = initialStepSize vfParameters,
      vf_jointLimitTolerance = jointLimitTolerance vfParameters,
      vf_constraintCheckResolution = constraintCheckResolution vfParameters,
      vf_timelimit = timelimit\<rparr>"

definition zero_direction_error :: error where
  "zero_direction_error = RuntimeError ''Direction vector is a zero vector''"

section \<open>Piecewise-linear trajectories (\<^verbatim>\<open>PiecewiseLinearTrajectory.hpp\<close>)\<close>

text \<open>
  The header declares the class; the bodies of its member functions are not part of the
  sources at hand.  The two functions below are written from the specification and from
  the documentation comment of \<^verbatim>\<open>getWaypointIndexAfterTime\<close> in the header.
\<close>

record Waypoint =
  t :: real
  state :: state

text \<open>
  Modelled from the spec: the binary search behind \<^verbatim>\<open>getWaypointIndexAfterTime\<close>, whose
  body is missing.  It looks in \<open>[lo, hi)\<close> for the first waypoint whose time is larger
  than \<open>x\<close>, and answers \<open>hi\<close> when there is none.
\<close>

function indexAfterTime_search :: "Waypoint list \<Rightarrow> real \<Rightarrow> nat \<Rightarrow> nat \<Rightarrow> nat" where
  "indexAfterTime_search ws x lo hi =
     (if lo < hi then
        (let mid = (lo + hi) div 2
         in if x < t (ws ! mid) then indexAfterTime_search ws x lo mid
            else indexAfterTime_search ws x (Suc mid) hi)
      else lo)"
  by pat_completeness auto
termination
  by (relation "measure (\<lambda>(ws, x, lo, hi). hi - lo)") auto

declare indexAfterTime_search.simps [simp del]

text \<open>
  Modelled from the spec: \<^verbatim>\<open>getWaypointIndexAfterTime\<close>, whose body is missing: the
  index of the first waypoint whose time is larger than \<open>x\<close>; a domain error if \<open>x\<close> is
  larger than the time of the last waypoint.  A trajectory without waypoints has no last
  waypoint; the model answers the domain error there.
\<close>

definition getWaypointIndexAfterTime :: "Waypoint list \<Rightarrow> real \<Rightarrow> error + nat" where
  "getWaypointIndexAfterTime ws x =
     (if ws = [] \<or> t (last ws) < x
      then Inl (DomainError ''_t is larger than the time of the last waypoint'')
      else Inr (indexAfterTime_search ws x 0 (length ws)))"

text \<open>
  Modelled from the spec: \<^verbatim>\<open>evaluate(_t, _state)\<close>, whose body is missing.  Outside
  \<open>[t0, tN]\<close> it fails with a domain error; inside, it interpolates between the two
  waypoints around \<open>x\<close> with the trajectory's interpolator (the parameter \<open>interpolate\<close>,
  given the two states and the fraction of the segment); at \<open>x = tN\<close> no waypoint is later
  than \<open>x\<close> and the answer is the last waypoint's state.
\<close>

definition evaluate ::
  "(state \<Rightarrow> state \<Rightarrow> real \<Rightarrow> state) \<Rightarrow> Waypoint list \<Rightarrow> real \<Rightarrow> error + state" where
  "evaluate interpolate ws x =
     (if ws = [] \<or> x < t (hd ws) \<or> t (last ws) < x
      then Inl (DomainError ''_t is outside the time range of the trajectory'')
      else
        (case getWaypointIndexAfterTime ws x of
           Inl e \<Rightarrow> Inl e
         | Inr i \<Rightarrow>
             if i = 0 then Inr (state (hd ws))
             else if length ws \<le> i then Inr (state (last ws))
             else Inr (interpolate (state (ws ! (i - 1))) (state (ws ! i))
                        ((x - t (ws ! (i - 1))) / (t (ws ! i) - t (ws ! (i - 1)))))))"

text \<open>The invariant of the waypoint vector: times strictly increasing.\<close>

definition increasing_times :: "Waypoint list \<Rightarrow> bool" where
  "increasing_times ws = sorted_wrt (\<lambda>a b. t a < t b) ws"

fun is_DomainError :: "error + 'a \<Rightarrow> bool" where
  "is_DomainError (Inl (DomainError msg)) = True"
| "is_DomainError r = False"

text \<open>
  The trajectory of the specification's example, three waypoints at the times 0, 1 and 2,
  and an interpolator for it.
\<close>

definition linear_interpolate :: "state \<Rightarrow> state \<Rightarrow> real \<Rightarrow> state" where
  "linear_interpolate a b alpha = map2 (\<lambda>p q. p + alpha * (q - p)) a b"

definition test_waypoints :: "Waypoint list" where
  "test_waypoints = [\<lparr>t = 0, state = [0]\<rparr>, \<lparr>t = 1, state = [1]\<rparr>, \<lparr>t = 2, state = [2]\<rparr>]"

section \<open>Reading the call log\<close>




text \<open>What a call gave and the world it left, without the log.\<close>

definition outcome :: "'r \<times> 'w \<times> 'l \<Rightarrow> 'r \<times> 'w" where
  "outcome out = (fst out, fst (snd out))"

section \<open>The cascade of \<open>planToTSR\<close> in the words of its specification\<close>

text \<open>
  The specification describes \<open>planToTSR\<close> as two searches of one kind, one after the
  other.  A search makes attempts while it may go on; it ends with the first attempt that
  gives a trajectory, and with null when it may not go on.  (An attempt that throws ends
  the search as well, with the exception.)  \<open>spec_first_found\<close> is that search, for any
  condition and any attempt; it is written from the specification, to be compared with
  the two loops written from the code.
\<close>

partial_function (option) spec_first_found ::
  "('s \<Rightarrow> bool) \<Rightarrow> ('s \<Rightarrow> (error + trajectory option) \<times> 's) \<Rightarrow> 's
     \<Rightarrow> ((error + trajectory option) \<times> 's) option" where
  "spec_first_found may_go_on attempt st =
     (if may_go_on st then
        (case attempt st of (r, st') \<Rightarrow>
           if r = Inr None then spec_first_found may_go_on attempt st' else Some (r, st'))
      else Some (Inr None, st))"

text \<open>
  The first search: ``exhausts up to \<open>maxSnapSamples\<close> (100) Snap attempts against freshly
  drawn TSR goal samples''.  Its state is the number of Snap attempts made, the generator
  and the world.  An attempt draws a sample and, if there is one, plans with Snap from the
  start state to it, the skeleton being at the start state; a draw that gives nothing is
  an attempt that found nothing, and no Snap attempt.
\<close>

definition spec_snap_more :: "('g, 'w) env \<Rightarrow> nat \<times> 'g \<times> 'w \<Rightarrow> bool" where
  "spec_snap_more env st = (case st of (made, g, w) \<Rightarrow> made < 100 \<and> canSample env g)"

definition spec_snap_attempt ::
  "('g, 'a world_scheme) env \<Rightarrow> state \<Rightarrow> nat \<times> 'g \<times> 'a world_scheme
     \<Rightarrow> (error + trajectory option) \<times> (nat \<times> 'g \<times> 'a world_scheme)" where
  "spec_snap_attempt env start st =
     (case st of (made, g, w) \<Rightarrow>
        (case sample env g w of (drawn, g', w1) \<Rightarrow>
           (case drawn of
              Inl e \<Rightarrow> (Inl e, (made, g', w1))
            | Inr None \<Rightarrow> (Inr None, (made, g', w1))
            | Inr (Some goal) \<Rightarrow>
                (case planSnap env start goal (w1\<lparr>positions := start\<rparr>) of
                   (r, w2) \<Rightarrow> (r, (Suc made, g', w2))))))"

text \<open>
  The second search: ``while the elapsed time is below \<open>timelimit\<close> and the generator can
  still sample, alternate drawing a TSR sample and delegating to \<open>planToConfiguration\<close>
  with a time slice equal to \<open>min(timelimit / maxNumTrials, timelimit - elapsed)\<close>''.  Its
  state is the generator and the world; \<open>t0\<close> is the reading of the wall clock when the
  timer was started.  For \<open>maxNumTrials = 0\<close> the quotient of a positive \<open>timelimit\<close> is
  \<open>+\<infinity>\<close>, and the least of \<open>+\<infinity>\<close> and \<open>timelimit - elapsed\<close> is \<open>timelimit - elapsed\<close>.
\<close>

definition spec_timed_more :: "('g, 'a world_scheme) env \<Rightarrow> real \<Rightarrow> real \<Rightarrow> 'g \<times> 'a world_scheme \<Rightarrow> bool" where
  "spec_timed_more env timelimit t0 st =
     (case st of (g, w) \<Rightarrow> wallclock w - t0 < timelimit \<and> canSample env g)"

definition spec_timed_attempt ::
  "('g, 'a world_scheme) env \<Rightarrow> state \<Rightarrow> real \<Rightarrow> nat \<Rightarrow> real \<Rightarrow> 'g \<times> 'a world_scheme
     \<Rightarrow> (error + trajectory option) \<times> ('g \<times> 'a world_scheme)" where
  "spec_timed_attempt env start timelimit maxNumTrials t0 st =
     (case st of (g, w) \<Rightarrow>
        (case sample env g w of (drawn, g', w1) \<Rightarrow>
           (case drawn of
              Inl e \<Rightarrow> (Inl e, (g', w1))
            | Inr None \<Rightarrow> (Inr None, (g', w1))
            | Inr (Some goal) \<Rightarrow>
                (let w2 = w1\<lparr>positions := start\<rparr>;
                     elapsed = wallclock w2 - t0;
                     slice = (if maxNumTrials = 0 then timelimit - elapsed
                              else min (timelimit / real maxNumTrials) (timelimit - elapsed))
                 in case planToConfiguration env goal slice w2 [] of
                      (r, w3, calls) \<Rightarrow> (r, (g', w3))))))"

text \<open>
  The cascade: the first search; ``only afterwards'', and only if that search found
  nothing, a fresh timer and the second search; the result is ``the first feasible
  trajectory or null''.  The skeleton is put back where it was in the end.
\<close>

definition spec_planToTSR ::
  "('g, 'a world_scheme) env \<Rightarrow> real \<Rightarrow> nat \<Rightarrow> 'a world_scheme
     \<Rightarrow> ((error + trajectory option) \<times> 'a world_scheme) option" where
  "spec_planToTSR env timelimit maxNumTrials w =
     (let start = positions w
      in case spec_first_found (spec_snap_more env) (spec_snap_attempt env start)
                (0, createSampleGenerator env w, w) of
           None \<Rightarrow> None
         | Some (r, made, g1, w1) \<Rightarrow>
             if r \<noteq> Inr None then Some (r, w1\<lparr>positions := start\<rparr>)
             else
               (let t0 = wallclock w1
                in case spec_first_found (spec_timed_more env timelimit t0)
                          (spec_timed_attempt env start timelimit maxNumTrials t0) (g1, w1) of
                     None \<Rightarrow> None
                   | Some (r2, g2, w2) \<Rightarrow> Some (r2, w2\<lparr>positions := start\<rparr>)))"

section \<open>Contracts for the collaborators of \<open>planToTSR\<close>\<close>

text \<open>
  A generator is bounded when some count of remaining draws goes down with every call
  of \<^verbatim>\<open>sample\<close> made while \<^verbatim>\<open>canSample\<close> holds.
\<close>

definition bounded_generator :: "('g, 'w) env \<Rightarrow> bool" where
  "bounded_generator env =
     (\<exists>remaining :: 'g \<Rightarrow> nat. \<forall>g w. canSample env g \<longrightarrow>
         remaining (fst (snd (sample env g w))) < remaining g)"


section \<open>The offset TSRs in the words of the specification\<close>

text \<open>
  The specification of the offset-goal geometry, for a direction \<open>dir\<close> and a distance
  \<open>travel\<close> that are already canonical: a frame at the world position of the body node whose
  rotation takes the z-axis to \<open>dir\<close>; a goal TSR at \<open>travel\<close> along the z-axis of that frame,
  with bounds of zero width; a constraint TSR at the frame, with the position tolerance on
  x and y, the range from zero to \<open>travel\<close> on z, and the angular tolerance on the three
  rotations.  Both carry the offset from the frame to the end-effector.  These are written
  from the specification, to be compared with what \<open>planToEndEffectorOffsetByCRRT\<close> hands
  to the constrained planner.
\<close>

definition canonical_direction :: "('g, 'w) env \<Rightarrow> vec3 \<Rightarrow> real \<Rightarrow> vec3" where
  "canonical_direction env d distance =
     (if distance < 0 then neg3 (normalized env d) else normalized env d)"

definition spec_look_at_frame :: "('g, 'w) env \<Rightarrow> 'w \<Rightarrow> vec3 \<Rightarrow> isometry" where
  "spec_look_at_frame env w dir =
     \<lparr>rotation = fromTwoVectors env UnitZ dir,
      translation = translation (getWorldTransform env w)\<rparr>"

definition spec_goal_tsr :: "('g, 'w) env \<Rightarrow> 'w \<Rightarrow> vec3 \<Rightarrow> real \<Rightarrow> tsr" where
  "spec_goal_tsr env w dir travel =
     \<lparr>T0_w = iso_mult (spec_look_at_frame env w dir)
               \<lparr>rotation = Identity3, translation = (0, 0, travel)\<rparr>,
      Tw_e = iso_mult (iso_inverse (spec_look_at_frame env w dir)) (getWorldTransform env w),
      Bw = [(0, 0), (0, 0), (0, 0), (0, 0), (0, 0), (0, 0)]\<rparr>"

definition spec_constraint_tsr :: "('g, 'w) env \<Rightarrow> 'w \<Rightarrow> vec3 \<Rightarrow> real \<Rightarrow> real \<Rightarrow> real \<Rightarrow> tsr" where
  "spec_constraint_tsr env w dir travel positionTolerance angularTolerance =
     \<lparr>T0_w = spec_look_at_frame env w dir,
      Tw_e = iso_mult (iso_inverse (spec_look_at_frame env w dir)) (getWorldTransform env w),
      Bw = [(- positionTolerance, positionTolerance), (- positionTolerance, positionTolerance),
            (0, travel),
            (- angularTolerance, angularTolerance), (- angularTolerance, angularTolerance),
            (- angularTolerance, angularTolerance)]\<rparr>"

text \<open>
  What the specification has \<open>planToEndEffectorOffsetByCRRT\<close> do with a direction that is
  not zero: the direction is normalized and, for a negative distance, direction and
  distance change sign; the constrained planner is asked for a path to the goal TSR under
  the constraint TSR of that canonical direction and distance, and the skeleton is put
  back where it was.
\<close>

definition spec_offset_plan ::
  "('g, 'a world_scheme) env \<Rightarrow> vec3 \<Rightarrow> real \<Rightarrow> real \<Rightarrow> real \<Rightarrow> real \<Rightarrow> crrt_parameters
     \<Rightarrow> 'a world_scheme \<Rightarrow> event list
     \<Rightarrow> (error + trajectory option) \<times> 'a world_scheme \<times> event list" where
  "spec_offset_plan env d distance timelimit positionTolerance angularTolerance crrtParameters
       w calls =
     (let dir = canonical_direction env d distance;
          travel = \<bar>distance\<bar>;
          goalTsr = spec_goal_tsr env w dir travel;
          constraintTsr = spec_constraint_tsr env w dir travel positionTolerance angularTolerance;
          (traj, w') = planCRRT env goalTsr constraintTsr timelimit crrtParameters w
      in (traj, w'\<lparr>positions := positions w\<rparr>,
          calls @ [CRRTCall goalTsr constraintTsr timelimit crrtParameters traj]))"

section \<open>A concrete environment\<close>

text \<open>
  A small world to run the functions in.  The generator is a counter of remaining draws,
  and the \<open>n\<close>-th last draw gives the one-joint goal \<open>[n]\<close>.  Snap succeeds on the goals in
  \<open>snap_ok\<close>, RRTConnect on those in \<open>ompl_ok\<close>, the vector-field planner on the calls in
  \<open>vf_ok\<close>, the constrained planner never.  Every planner leaves the skeleton where its
  search ended, and Snap and the vector-field planner take one unit of time, RRTConnect
  its whole time limit.  The body frame sits at the origin.  \<open>fromTwoVectors a b\<close> is the
  identity when \<open>b\<close> does not point against \<open>a\<close> and the half-turn about the x-axis when
  it does, which is exact for \<open>a = UnitZ\<close> and the directions \<open>b\<close> along the z-axis.
  \<open>normalized\<close> is the normalization of exact arithmetic, which is what doubles give for
  the vectors \<open>(0, 0, z)\<close> whose square does not overflow.
\<close>

definition test_env ::
  "nat \<Rightarrow> (state \<Rightarrow> bool) \<Rightarrow> (state \<Rightarrow> bool) \<Rightarrow> (vf_call \<Rightarrow> bool) \<Rightarrow> (nat, world) env" where
  "test_env draws snap_ok ompl_ok vf_ok =
     \<lparr>planSnap = (\<lambda>s g w.
         ((if snap_ok g then Inr (Some (Interpolated [s, g])) else Inr None),
          w\<lparr>positions := g, wallclock := wallclock w + 1\<rparr>)),
      planOMPL = (\<lambda>s g budget res w.
         ((if ompl_ok g then Inr (Some (Interpolated [s, s, g])) else Inr None),
          w\<lparr>positions := g, wallclock := wallclock w + max budget 0\<rparr>)),
      createSampleGenerator = (\<lambda>w. draws),
      canSample = (\<lambda>g. 0 < g),
      sample = (\<lambda>g w. (Inr (Some [real g]), g - 1, w\<lparr>positions := [real g]\<rparr>)),
      planVF = (\<lambda>a w.
         ((if vf_ok a then Inr (Some (Spline [positions w])) else Inr None),
          w\<lparr>positions := [], wallclock := wallclock w + 1\<rparr>)),
      planCRRT = (\<lambda>goalTsr constraintTsr budget p w. (Inr None, w\<lparr>positions := []\<rparr>)),
      getWorldTransform = (\<lambda>w. Identity),
      fromTwoVectors = (\<lambda>a b.
         if dot3 a b < 0 then ((1, 0, 0), (0, - 1, 0), (0, 0, - 1)) else Identity3),
      normalized = normalize3\<rparr>"

definition always :: "'a \<Rightarrow> bool" where
  "always x = True"

definition never :: "'a \<Rightarrow> bool" where
  "never x = False"

text \<open>Snap or RRTConnect reach the goal \<open>[2]\<close> only.\<close>

definition is_second :: "state \<Rightarrow> bool" where
  "is_second g = (g = [2])"

text \<open>A vector-field planner that succeeds when the least distance asked for is not negative.\<close>

definition forward_only :: "vf_call \<Rightarrow> bool" where
  "forward_only a = (0 \<le> vf_minDistance a)"

text \<open>
  The same world with a vector-field planner that throws when the least distance asked for
  is negative, and finds a trajectory otherwise.
\<close>

definition strict_vf_env :: "(nat, world) env" where
  "strict_vf_env =
     (test_env 0 never never never)\<lparr>planVF := (\<lambda>a w.
        ((if vf_minDistance a < 0 then Inl (RuntimeError ''Distance must be non-negative'')
          else Inr (Some (Spline [positions w]))),
         w\<lparr>positions := [], wallclock := wallclock w + 1\<rparr>))\<rparr>"

text \<open>
  The same world with the \<^verbatim>\<open>normalize()\<close> of doubles on long vectors: when the squared
  norm is beyond the largest double it is \<open>+\<infinity>\<close>, so is the norm, and every component
  divided by it is zero.
\<close>

definition overflow_env :: "(nat, world) env" where
  "overflow_env =
     (test_env 0 never never never)\<lparr>normalized := (\<lambda>v.
        if 2 ^ 1024 < dot3 v v then (0, 0, 0) else normalize3 v)\<rparr>"

definition test_world :: world where
  "test_world = \<lparr>positions = [0], wallclock = 0\<rparr>"

definition test_vf_parameters :: vf_parameters where
  "test_vf_parameters =
     \<lparr>negativeDistanceTolerance = 0, positiveDistanceTolerance = 0, initialStepSize = 1,
      jointLimitTolerance = 0, constraintCheckResolution = 1\<rparr>"

definition test_crrt_parameters :: crrt_parameters where
  "test_crrt_parameters =
     \<lparr>crrt_maxNumTrials = 1, maxExtensionDistance = 1, maxDistanceBtwProjections = 1,
      minStepSize = 1, minTreeConnectionDistance = 1, projectionMaxIteration = 1,
      projectionTolerance = 1\<rparr>"

section \<open>Properties\<close>

subsection \<open>The state saver\<close>

lemma fst_restore: "fst (restore saved out) = fst out"
  by (cases out) (simp add: restore_def)

lemma calls_restore: "snd (snd (restore saved out)) = snd (snd out)"
  by (cases out) (simp add: restore_def)

lemma positions_restore: "positions (fst (snd (restore saved out))) = saved"
  by (cases out) (simp add: restore_def)

lemma positions_saver:
  "positions (fst (snd (MetaSkeletonStateSaver body w))) = positions w"
  by (simp add: MetaSkeletonStateSaver_def Let_def positions_restore)

subsection \<open>\<^verbatim>\<open>planToConfiguration\<close>: Snap before RRTConnect\<close>


text \<open>
  Claim C1.  In every call of \<open>planToConfiguration\<close> the first collaborator called is
  the Snap planner, on the skeleton's current positions and the goal.  If Snap returns a
  trajectory, that trajectory is the result and the RRTConnect planner is not called.  If
  the RRTConnect planner is called at all, Snap had returned null.
\<close>

theorem planToConfiguration_snap_first:
  assumes "planToConfiguration env goalState timelimit w [] = (r, w', calls)"
  shows "take 1 calls =
           [SnapCall (positions w) goalState (fst (planSnap env (positions w) goalState w))]
       \<and> (\<forall>traj. fst (planSnap env (positions w) goalState w) = Inr (Some traj) \<longrightarrow>
              r = Inr (Some traj) \<and> \<not> list_ex is_OMPLCall calls)
       \<and> (list_ex is_OMPLCall calls \<longrightarrow>
              fst (planSnap env (positions w) goalState w) = Inr None)"
  using assms
  by (auto simp: planToConfiguration_def MetaSkeletonStateSaver_def restore_def Let_def
      split: prod.splits sum.splits option.splits)

theorem planToConfiguration_snap_first_witness:
  "planToConfiguration (test_env 0 always never never) [1] 5 test_world []
     = (Inr (Some (Interpolated [[0], [1]])), test_world\<lparr>wallclock := 1\<rparr>,
        [SnapCall [0] [1] (Inr (Some (Interpolated [[0], [1]])))])
   \<and> \<not> list_ex is_OMPLCall [SnapCall [0] [1] (Inr (Some (Interpolated [[0], [1]])))]"
proof -
  have run: "planToConfiguration (test_env 0 always never never) [1] 5 test_world []
     = (Inr (Some (Interpolated [[0], [1]])), test_world\<lparr>wallclock := 1\<rparr>,
        [SnapCall [0] [1] (Inr (Some (Interpolated [[0], [1]])))])"
    by (simp add: planToConfiguration_def MetaSkeletonStateSaver_def restore_def Let_def
        test_env_def test_world_def always_def)
  have snap: "fst (planSnap (test_env 0 always never never) (positions test_world) [1] test_world)
       = Inr (Some (Interpolated [[0], [1]]))"
    by (simp add: test_env_def test_world_def always_def)
  from planToConfiguration_snap_first [OF run] snap run show ?thesis
    by blast
qed

subsection \<open>\<^verbatim>\<open>planToConfigurations\<close>: only the first goal is tried\<close>

text \<open>
  On a vector that is not empty, \<open>planToConfigurations\<close> is \<open>planToConfiguration\<close> for the
  first goal; on the empty vector it is null.
\<close>

lemma planToConfigurations_first:
  "planToConfigurations env (goalState # remaining) timelimit w calls
     = planToConfiguration env goalState timelimit w calls"
  by (simp add: planToConfigurations_def planToConfiguration_def)

lemma planToConfigurations_ignores_rest:
  "planToConfigurations env (goalState # remaining) timelimit w calls
     = planToConfigurations env [goalState] timelimit w calls"
  by (simp add: planToConfigurations_first)


text \<open>
  Claim C3.  The claim is that \<open>planToConfigurations\<close> tries every goal state in turn
  and returns null only when all of them failed.  The code does not: the loop body returns
  after the first goal whatever the planners answered.  With the goals \<open>[1]\<close> and \<open>[2]\<close>,
  of which the second can be reached by Snap and the first by no planner, the call
  returns null after one Snap call and one RRTConnect call, both for the first goal,
  although \<open>planToConfiguration\<close> finds a trajectory to the second goal from the same
  world.
\<close>

theorem planToConfigurations_first_goal_only:
  "planToConfigurations (test_env 0 is_second never never) [[1], [2]] 5 test_world []
     = (Inr None, \<lparr>positions = [0], wallclock = 6\<rparr>,
        [SnapCall [0] [1] (Inr None), OMPLCall [0] [1] 5 collisionResolution (Inr None)])
   \<and> fst (planToConfiguration (test_env 0 is_second never never) [2] 5 test_world [])
     = Inr (Some (Interpolated [[0], [2]]))"
  by (simp add: planToConfigurations_def planToConfiguration_def MetaSkeletonStateSaver_def
      restore_def Let_def test_env_def test_world_def is_second_def never_def)

subsection \<open>\<open>planToTSR\<close> and the cascade of its specification\<close>

text \<open>
  The log that \<open>planToConfiguration\<close> is given does not change what it returns or what
  it does to the world.
\<close>

lemma planToConfiguration_outcome:
  "outcome (planToConfiguration env goal budget w calls)
     = outcome (planToConfiguration env goal budget w [])"
  by (simp add: outcome_def planToConfiguration_def MetaSkeletonStateSaver_def restore_def
      Let_def split: prod.splits sum.splits option.splits)

text \<open>One step of the search of the specification.\<close>

lemma spec_first_found_stop:
  "\<not> may_go_on st \<Longrightarrow> spec_first_found may_go_on attempt st = Some (Inr None, st)"
  by (subst spec_first_found.simps) simp

lemma spec_first_found_found:
  "may_go_on st \<Longrightarrow> attempt st = (r, st') \<Longrightarrow> r \<noteq> Inr None
     \<Longrightarrow> spec_first_found may_go_on attempt st = Some (r, st')"
  by (subst spec_first_found.simps) simp

lemma spec_first_found_next:
  "may_go_on st \<Longrightarrow> attempt st = (Inr None, st')
     \<Longrightarrow> spec_first_found may_go_on attempt st = spec_first_found may_go_on attempt st'"
  by (subst spec_first_found.simps) simp

text \<open>
  The comparison, loop by loop and in both directions.  A run of the loop written from the
  code is a run of the search of the specification, by induction on the run of the loop;
  and a run of the search is a run of the loop, whatever the log the loop starts with, by
  induction on the run of the search.
\<close>

lemma std_min_double_quotient:
  "std_min (double_quotient x n) y = (if n = 0 then y else min (x / real n) y)"
  by (simp add: double_quotient_def)

lemma timed_loop_refines:
  assumes "timed_loop env s timelimit per t0 g w calls = Some out"
  shows "per = double_quotient timelimit n \<longrightarrow>
           (\<exists>g2. spec_first_found (spec_timed_more env timelimit t0)
                    (spec_timed_attempt env s timelimit n t0) (g, w)
                  = Some (fst out, g2, fst (snd out)))"
proof (rule timed_loop.raw_induct
    [where P = "\<lambda>env s timelimit per t0 g w calls out. per = double_quotient timelimit n \<longrightarrow>
           (\<exists>g2. spec_first_found (spec_timed_more env timelimit t0)
                    (spec_timed_attempt env s timelimit n t0) (g, w)
                  = Some (fst out, g2, fst (snd out)))", OF _ assms], goal_cases)
  case (1 timed_loop env s timelimit per t0 g w calls out)
  show ?case
  proof
    assume per: "per = double_quotient timelimit n"
    let ?more = "spec_timed_more env timelimit t0"
    let ?att = "spec_timed_attempt env s timelimit n t0"
    show "\<exists>g2. spec_first_found ?more ?att (g, w) = Some (fst out, g2, fst (snd out))"
    proof (cases "wallclock w - t0 < timelimit \<and> canSample env g")
      case False
      with 1(2) have out: "out = (Inr None, w, calls)" by auto
      from False have "spec_first_found ?more ?att (g, w) = Some (Inr None, g, w)"
        by (intro spec_first_found_stop) (simp add: spec_timed_more_def)
      with out show ?thesis by simp
    next
      case True
      then have more: "?more (g, w)" by (simp add: spec_timed_more_def)
      obtain rs g' w1 where smp: "sample env g w = (rs, g', w1)" by (cases "sample env g w") auto
      show ?thesis
      proof (cases rs)
        case (Inl e)
        with 1(2) True smp have out: "out = (Inl e, w1, calls @ [SampleCall (wallclock w) rs])"
          by auto
        have "?att (g, w) = (Inl e, g', w1)"
          using smp Inl by (simp add: spec_timed_attempt_def)
        from spec_first_found_found[where may_go_on = ?more and attempt = ?att and st = "(g, w)", OF more this] out show ?thesis by simp
      next
        case (Inr drawn)
        show ?thesis
        proof (cases drawn)
          case None
          with 1(2) True smp Inr
          have rec: "timed_loop env s timelimit per t0 g' w1
                       (calls @ [SampleCall (wallclock w) (Inr None)]) = Some out"
            by (simp add: Let_def)
          from 1(1)[OF rec] per obtain g2 where
            g2: "spec_first_found ?more ?att (g', w1) = Some (fst out, g2, fst (snd out))"
            by blast
          have "?att (g, w) = (Inr None, g', w1)"
            using smp Inr None by (simp add: spec_timed_attempt_def)
          from spec_first_found_next[where may_go_on = ?more and attempt = ?att and st = "(g, w)", OF more this] g2 show ?thesis by simp
        next
          case (Some goalState)
          define w2 where "w2 = w1\<lparr>positions := s\<rparr>"
          define slice where "slice = std_min per (timelimit - (wallclock w2 - t0))"
          define pre where
            "pre = [SampleCall (wallclock w) rs, Delegate goalState (wallclock w2) slice]"
          obtain r w3 calls3 where
            ptc: "planToConfiguration env goalState slice w2 (calls @ pre) = (r, w3, calls3)"
            by (cases "planToConfiguration env goalState slice w2 (calls @ pre)") auto
          from planToConfiguration_outcome[of env goalState slice w2 "calls @ pre"] ptc
          obtain c0 where
            ptc0: "planToConfiguration env goalState slice w2 [] = (r, w3, c0)"
            by (cases "planToConfiguration env goalState slice w2 []") (auto simp: outcome_def)
          have att: "?att (g, w) = (r, g', w3)"
            using smp Inr Some ptc0 per
            by (auto simp: spec_timed_attempt_def Let_def w2_def slice_def
                std_min_double_quotient split: if_splits)
          from 1(2) True smp Inr Some ptc
          have step: "(case r of Inl e \<Rightarrow> Some (Inl e, w3, calls3)
                    | Inr None \<Rightarrow> timed_loop env s timelimit per t0 g' w3 calls3
                    | Inr (Some traj) \<Rightarrow> Some (Inr (Some traj), w3, calls3)) = Some out"
            by (simp add: w2_def slice_def pre_def Let_def)
          show ?thesis
          proof (cases "r = Inr None")
            case False
            with step have out: "out = (r, w3, calls3)"
              by (auto split: sum.splits option.splits)
            from spec_first_found_found[where may_go_on = ?more and attempt = ?att and st = "(g, w)", OF more att False] out show ?thesis by simp
          next
            case rnull: True
            with step have rec: "timed_loop env s timelimit per t0 g' w3 calls3 = Some out"
              by simp
            from 1(1)[OF rec] per obtain g2 where
              g2: "spec_first_found ?more ?att (g', w3) = Some (fst out, g2, fst (snd out))"
              by blast
            from spec_first_found_next[where may_go_on = ?more and attempt = ?att and st = "(g, w)", OF more att[unfolded rnull]] g2 show ?thesis by simp
          qed
        qed
      qed
    qed
  qed
qed


lemma spec_timed_refined:
  assumes "spec_first_found may_go_on attempt st = Some res"
  shows "may_go_on = spec_timed_more env timelimit t0 \<longrightarrow>
         attempt = spec_timed_attempt env s timelimit n t0 \<longrightarrow>
           (\<forall>calls. \<exists>calls'. timed_loop env s timelimit (double_quotient timelimit n) t0
                 (fst st) (snd st) calls = Some (fst res, snd (snd res), calls'))"
proof (rule spec_first_found.raw_induct
    [where P = "\<lambda>may_go_on attempt st res.
         may_go_on = spec_timed_more env timelimit t0 \<longrightarrow>
         attempt = spec_timed_attempt env s timelimit n t0 \<longrightarrow>
           (\<forall>calls. \<exists>calls'. timed_loop env s timelimit (double_quotient timelimit n) t0
                 (fst st) (snd st) calls = Some (fst res, snd (snd res), calls'))",
      OF _ assms], goal_cases)
  case (1 first_found may_go_on attempt st res)
  show ?case
  proof (intro impI allI)
    fix calls
    assume more: "may_go_on = spec_timed_more env timelimit t0"
      and att: "attempt = spec_timed_attempt env s timelimit n t0"
    obtain g w where st: "st = (g, w)" by (cases st) auto
    let ?per = "double_quotient timelimit n"
    show "\<exists>calls'. timed_loop env s timelimit ?per t0 (fst st) (snd st) calls
            = Some (fst res, snd (snd res), calls')"
    proof (cases "wallclock w - t0 < timelimit \<and> canSample env g")
      case False
      with 1(2) more st have "res = (Inr None, g, w)"
        by (auto simp: spec_timed_more_def)
      with False st show ?thesis
        by (subst timed_loop.simps) auto
    next
      case True
      then have go: "may_go_on st" using more st by (simp add: spec_timed_more_def)
      obtain rs g' w1 where smp: "sample env g w = (rs, g', w1)" by (cases "sample env g w") auto
      show ?thesis
      proof (cases rs)
        case (Inl e)
        then have "attempt st = (Inl e, g', w1)"
          using att st smp by (simp add: spec_timed_attempt_def)
        with 1(2) go have "res = (Inl e, g', w1)" by simp
        with True st smp Inl show ?thesis
          by (subst timed_loop.simps) simp
      next
        case (Inr drawn)
        show ?thesis
        proof (cases drawn)
          case None
          then have a: "attempt st = (Inr None, g', w1)"
            using att st smp Inr by (simp add: spec_timed_attempt_def)
          with 1(2) go have rec: "first_found may_go_on attempt (g', w1) = Some res" by simp
          from 1(1)[OF rec] more att obtain calls' where
            "timed_loop env s timelimit ?per t0 g' w1
               (calls @ [SampleCall (wallclock w) (Inr None)]) = Some (fst res, snd (snd res), calls')"
            by fastforce
          with True st smp Inr None show ?thesis
            by (subst timed_loop.simps) simp
        next
          case (Some goalState)
          define w2 where "w2 = w1\<lparr>positions := s\<rparr>"
          define slice where "slice = std_min ?per (timelimit - (wallclock w2 - t0))"
          define pre where
            "pre = [SampleCall (wallclock w) rs, Delegate goalState (wallclock w2) slice]"
          obtain r w3 calls3 where
            ptc: "planToConfiguration env goalState slice w2 (calls @ pre) = (r, w3, calls3)"
            by (cases "planToConfiguration env goalState slice w2 (calls @ pre)") auto
          from planToConfiguration_outcome[of env goalState slice w2 "calls @ pre"] ptc
          obtain c0 where
            ptc0: "planToConfiguration env goalState slice w2 [] = (r, w3, c0)"
            by (cases "planToConfiguration env goalState slice w2 []") (auto simp: outcome_def)
          have a: "attempt st = (r, g', w3)"
            using att st smp Inr Some ptc0
            by (auto simp: spec_timed_attempt_def Let_def w2_def slice_def
                std_min_double_quotient split: if_splits)
          have unfold: "timed_loop env s timelimit ?per t0 (fst st) (snd st) calls
              = (case r of Inl e \<Rightarrow> Some (Inl e, w3, calls3)
                    | Inr None \<Rightarrow> timed_loop env s timelimit ?per t0 g' w3 calls3
                    | Inr (Some traj) \<Rightarrow> Some (Inr (Some traj), w3, calls3))"
            using True st smp Inr Some ptc
            by (subst timed_loop.simps) (simp add: w2_def slice_def pre_def Let_def)
          show ?thesis
          proof (cases "r = Inr None")
            case False
            with 1(2) go a have "res = (r, g', w3)" by simp
            with unfold False show ?thesis
              by (auto split: sum.splits option.splits)
          next
            case rnull: True
            with 1(2) go a have rec: "first_found may_go_on attempt (g', w3) = Some res" by simp
            from 1(1)[OF rec] more att obtain calls' where
              "timed_loop env s timelimit ?per t0 g' w3 calls3
                 = Some (fst res, snd (snd res), calls')"
              by fastforce
            with unfold rnull show ?thesis by simp
          qed
        qed
      qed
    qed
  qed
qed


text \<open>
  The same for the first loop, which ends in the timer and the second loop where the
  search of the specification ends with nothing found.
\<close>

lemma snap_loop_refines:
  assumes "snap_loop env s timelimit per k g w calls = Some out"
  shows "per = double_quotient timelimit n \<longrightarrow>
     (\<exists>r made g1 w1.
        spec_first_found (spec_snap_more env) (spec_snap_attempt env s) (k, g, w)
          = Some (r, made, g1, w1)
      \<and> (if r = Inr None
         then (\<exists>g2. spec_first_found (spec_timed_more env timelimit (wallclock w1))
                      (spec_timed_attempt env s timelimit n (wallclock w1)) (g1, w1)
                    = Some (fst out, g2, fst (snd out)))
         else outcome out = (r, w1)))"
proof (rule snap_loop.raw_induct
    [where P = "\<lambda>env s timelimit per k g w calls out. per = double_quotient timelimit n \<longrightarrow>
     (\<exists>r made g1 w1.
        spec_first_found (spec_snap_more env) (spec_snap_attempt env s) (k, g, w)
          = Some (r, made, g1, w1)
      \<and> (if r = Inr None
         then (\<exists>g2. spec_first_found (spec_timed_more env timelimit (wallclock w1))
                      (spec_timed_attempt env s timelimit n (wallclock w1)) (g1, w1)
                    = Some (fst out, g2, fst (snd out)))
         else outcome out = (r, w1)))", OF _ assms], goal_cases)
  case (1 snap_loop env s timelimit per k g w calls out)
  let ?more = "spec_snap_more env"
  let ?att = "spec_snap_attempt env s"
  show ?case
  proof
    assume per: "per = double_quotient timelimit n"
    show "\<exists>r made g1 w1. spec_first_found ?more ?att (k, g, w) = Some (r, made, g1, w1)
      \<and> (if r = Inr None
         then (\<exists>g2. spec_first_found (spec_timed_more env timelimit (wallclock w1))
                      (spec_timed_attempt env s timelimit n (wallclock w1)) (g1, w1)
                    = Some (fst out, g2, fst (snd out)))
         else outcome out = (r, w1))"
    proof (cases "k < maxSnapSamples \<and> canSample env g")
      case False
      with 1(2) have "timed_loop env s timelimit per (wallclock w) g w
         (calls @ [TimerStart (wallclock w)]) = Some out"
        by (auto simp: timed_phase_def)
      from timed_loop_refines[OF this, of n] per obtain g2 where
        g2: "spec_first_found (spec_timed_more env timelimit (wallclock w))
               (spec_timed_attempt env s timelimit n (wallclock w)) (g, w)
             = Some (fst out, g2, fst (snd out))" by blast
      from False have "spec_first_found ?more ?att (k, g, w) = Some (Inr None, k, g, w)"
        by (intro spec_first_found_stop) (simp add: spec_snap_more_def maxSnapSamples_def)
      with g2 show ?thesis by auto
    next
      case True
      then have more: "?more (k, g, w)" by (simp add: spec_snap_more_def maxSnapSamples_def)
      obtain rs g' w1 where smp: "sample env g w = (rs, g', w1)" by (cases "sample env g w") auto
      show ?thesis
      proof (cases rs)
        case (Inl e)
        with 1(2) True smp have out: "out = (Inl e, w1, calls @ [SampleCall (wallclock w) rs])"
          by auto
        have "?att (k, g, w) = (Inl e, k, g', w1)"
          using smp Inl by (simp add: spec_snap_attempt_def)
        from spec_first_found_found[where may_go_on = ?more and attempt = ?att
            and st = "(k, g, w)", OF more this] out
        show ?thesis by (simp add: outcome_def)
      next
        case (Inr drawn)
        show ?thesis
        proof (cases drawn)
          case None
          with 1(2) True smp Inr
          have rec: "snap_loop env s timelimit per k g' w1
                       (calls @ [SampleCall (wallclock w) (Inr None)]) = Some out"
            by (simp add: Let_def)
          have "?att (k, g, w) = (Inr None, k, g', w1)"
            using smp Inr None by (simp add: spec_snap_attempt_def)
          from spec_first_found_next[where may_go_on = ?more and attempt = ?att
              and st = "(k, g, w)", OF more this] 1(1)[OF rec] per
          show ?thesis by simp
        next
          case (Some goalState)
          obtain r w3 where snp: "planSnap env s goalState (w1\<lparr>positions := s\<rparr>) = (r, w3)"
            by (cases "planSnap env s goalState (w1\<lparr>positions := s\<rparr>)") auto
          let ?pre = "[SampleCall (wallclock w) rs, SnapCall s goalState r]"
          have att: "?att (k, g, w) = (r, Suc k, g', w3)"
            using smp Inr Some snp by (simp add: spec_snap_attempt_def)
          show ?thesis
          proof (cases "r = Inr None")
            case False
            with 1(2) True smp Inr Some snp have out: "out = (r, w3, calls @ ?pre)"
              by (auto simp: Let_def split: sum.splits option.splits)
            from spec_first_found_found[where may_go_on = ?more and attempt = ?att
                and st = "(k, g, w)", OF more att False] out False
            show ?thesis by (simp add: outcome_def)
          next
            case rnull: True
            with 1(2) True smp Inr Some snp
            have rec: "snap_loop env s timelimit per (Suc k) g' w3 (calls @ ?pre) = Some out"
              by (simp add: Let_def)
            from spec_first_found_next[where may_go_on = ?more and attempt = ?att
                and st = "(k, g, w)", OF more att[unfolded rnull]] 1(1)[OF rec] per
            show ?thesis by simp
          qed
        qed
      qed
    qed
  qed
qed

lemma spec_snap_refined:
  assumes "spec_first_found may_go_on attempt st = Some res"
  shows "may_go_on = spec_snap_more env \<longrightarrow> attempt = spec_snap_attempt env s \<longrightarrow>
     (\<forall>calls. \<exists>calls'.
         snap_loop env s timelimit per (fst st) (fst (snd st)) (snd (snd st)) calls
           = (if fst res = Inr None
              then timed_phase env s timelimit per (fst (snd (snd res))) (snd (snd (snd res)))
                     calls'
              else Some (fst res, snd (snd (snd res)), calls')))"
proof (rule spec_first_found.raw_induct
    [where P = "\<lambda>may_go_on attempt st res.
       may_go_on = spec_snap_more env \<longrightarrow> attempt = spec_snap_attempt env s \<longrightarrow>
     (\<forall>calls. \<exists>calls'.
         snap_loop env s timelimit per (fst st) (fst (snd st)) (snd (snd st)) calls
           = (if fst res = Inr None
              then timed_phase env s timelimit per (fst (snd (snd res))) (snd (snd (snd res)))
                     calls'
              else Some (fst res, snd (snd (snd res)), calls')))", OF _ assms], goal_cases)
  case (1 first_found may_go_on attempt st res)
  show ?case
  proof (intro impI allI)
    fix calls
    assume more: "may_go_on = spec_snap_more env"
      and att: "attempt = spec_snap_attempt env s"
    obtain k g w where st: "st = (k, g, w)" by (cases st) auto
    show "\<exists>calls'. snap_loop env s timelimit per (fst st) (fst (snd st)) (snd (snd st)) calls
           = (if fst res = Inr None
              then timed_phase env s timelimit per (fst (snd (snd res))) (snd (snd (snd res)))
                     calls'
              else Some (fst res, snd (snd (snd res)), calls'))"
    proof (cases "k < maxSnapSamples \<and> canSample env g")
      case False
      with 1(2) more st have "res = (Inr None, k, g, w)"
        by (auto simp: spec_snap_more_def maxSnapSamples_def)
      with False st show ?thesis
        by (subst snap_loop.simps) auto
    next
      case True
      then have go: "may_go_on st"
        using more st by (simp add: spec_snap_more_def maxSnapSamples_def)
      obtain rs g' w1 where smp: "sample env g w = (rs, g', w1)" by (cases "sample env g w") auto
      show ?thesis
      proof (cases rs)
        case (Inl e)
        then have "attempt st = (Inl e, k, g', w1)"
          using att st smp by (simp add: spec_snap_attempt_def)
        with 1(2) go have "res = (Inl e, k, g', w1)" by simp
        with True st smp Inl show ?thesis
          by (subst snap_loop.simps) simp
      next
        case (Inr drawn)
        show ?thesis
        proof (cases drawn)
          case None
          then have a: "attempt st = (Inr None, k, g', w1)"
            using att st smp Inr by (simp add: spec_snap_attempt_def)
          with 1(2) go have rec: "first_found may_go_on attempt (k, g', w1) = Some res" by simp
          from 1(1)[OF rec] more att obtain calls' where
            eq: "snap_loop env s timelimit per k g' w1
               (calls @ [SampleCall (wallclock w) (Inr None)])
             = (if fst res = Inr None
              then timed_phase env s timelimit per (fst (snd (snd res))) (snd (snd (snd res)))
                     calls'
              else Some (fst res, snd (snd (snd res)), calls'))"
            by fastforce
          have step: "snap_loop env s timelimit per (fst st) (fst (snd st)) (snd (snd st)) calls
              = snap_loop env s timelimit per k g' w1
                  (calls @ [SampleCall (wallclock w) (Inr None)])"
            using True st smp Inr None by (subst snap_loop.simps) simp
          show ?thesis unfolding step eq by (rule exI[of _ calls'], rule refl)
        next
          case (Some goalState)
          obtain r w3 where snp: "planSnap env s goalState (w1\<lparr>positions := s\<rparr>) = (r, w3)"
            by (cases "planSnap env s goalState (w1\<lparr>positions := s\<rparr>)") auto
          let ?pre = "[SampleCall (wallclock w) rs, SnapCall s goalState r]"
          have a: "attempt st = (r, Suc k, g', w3)"
            using att st smp Inr Some snp by (simp add: spec_snap_attempt_def)
          have unfold: "snap_loop env s timelimit per (fst st) (fst (snd st)) (snd (snd st)) calls
              = (case r of Inl e \<Rightarrow> Some (Inl e, w3, calls @ ?pre)
                    | Inr None \<Rightarrow> snap_loop env s timelimit per (Suc k) g' w3 (calls @ ?pre)
                    | Inr (Some traj) \<Rightarrow> Some (Inr (Some traj), w3, calls @ ?pre))"
            using True st smp Inr Some snp
            by (subst snap_loop.simps) (auto simp: Let_def split: sum.splits option.splits)
          show ?thesis
          proof (cases "r = Inr None")
            case False
            with 1(2) go a have "res = (r, Suc k, g', w3)" by simp
            with unfold False show ?thesis
              by (auto split: sum.splits option.splits)
          next
            case rnull: True
            with 1(2) go a have rec: "first_found may_go_on attempt (Suc k, g', w3) = Some res"
              by simp
            from 1(1)[OF rec] more att obtain calls' where
              eq: "snap_loop env s timelimit per (Suc k) g' w3 (calls @ ?pre)
               = (if fst res = Inr None
                then timed_phase env s timelimit per (fst (snd (snd res))) (snd (snd (snd res)))
                       calls'
                else Some (fst res, snd (snd (snd res)), calls'))"
              by fastforce
            from unfold rnull
            have step: "snap_loop env s timelimit per (fst st) (fst (snd st)) (snd (snd st)) calls
                = snap_loop env s timelimit per (Suc k) g' w3 (calls @ ?pre)"
              by simp
            show ?thesis unfolding step eq by (rule exI[of _ calls'], rule refl)
          qed
        qed
      qed
    qed
  qed
qed

text \<open>
  So \<open>planToTSR\<close> and the cascade of the specification return in the same cases, and then
  with the same result and the same world.
\<close>

lemma planToTSR_refines:
  "map_option outcome (planToTSR env timelimit n w calls) = spec_planToTSR env timelimit n w"
proof -
  let ?s = "positions w"
  let ?per = "double_quotient timelimit n"
  let ?g0 = "createSampleGenerator env w"
  let ?A = "snap_loop env ?s timelimit ?per 0 ?g0 w calls"
  let ?B = "spec_first_found (spec_snap_more env) (spec_snap_attempt env ?s) (0, ?g0, w)"
  have lhs: "planToTSR env timelimit n w calls = map_option (restore ?s) ?A"
    by (simp add: planToTSR_def Let_def)
  show ?thesis
  proof (cases ?B)
    case None
    have "?A = None"
    proof (cases ?A)
      case (Some out)
      from snap_loop_refines[OF Some, of n] None show ?thesis by auto
    qed simp
    with None lhs show ?thesis by (simp add: spec_planToTSR_def)
  next
    case (Some res)
    obtain r made g1 w1 where res: "res = (r, made, g1, w1)" by (cases res) auto
    from spec_snap_refined[OF Some, of env ?s timelimit ?per] obtain calls' where
      A: "?A = (if r = Inr None then timed_phase env ?s timelimit ?per g1 w1 calls'
                else Some (r, w1, calls'))"
      unfolding res by fastforce
    show ?thesis
    proof (cases "r = Inr None")
      case False
      with A lhs Some res show ?thesis
        by (simp add: spec_planToTSR_def outcome_def restore_def)
    next
      case rnull: True
      let ?C = "spec_first_found (spec_timed_more env timelimit (wallclock w1))
                  (spec_timed_attempt env ?s timelimit n (wallclock w1)) (g1, w1)"
      let ?T = "timed_loop env ?s timelimit ?per (wallclock w1) g1 w1
                  (calls' @ [TimerStart (wallclock w1)])"
      from A rnull have AT: "?A = ?T" by (simp add: timed_phase_def)
      have spec: "spec_planToTSR env timelimit n w
          = (case ?C of None \<Rightarrow> None
             | Some (r2, g2, w2) \<Rightarrow> Some (r2, w2\<lparr>positions := ?s\<rparr>))"
        using Some res rnull by (simp add: spec_planToTSR_def Let_def)
      show ?thesis
      proof (cases ?C)
        case None
        have "?T = None"
        proof (cases ?T)
          case (Some out)
          from timed_loop_refines[OF Some, of n] None show ?thesis by auto
        qed simp
        with None lhs AT spec show ?thesis by simp
      next
        case (Some res2)
        obtain r2 g2 w2 where res2: "res2 = (r2, g2, w2)" by (cases res2) auto
        from spec_timed_refined[OF Some, of env timelimit "wallclock w1" ?s n] obtain calls'' where
          "?T = Some (r2, w2, calls'')"
          unfolding res2 by fastforce
        with Some res2 lhs AT spec show ?thesis
          by (simp add: outcome_def restore_def)
      qed
    qed
  qed
qed

subsection \<open>When \<open>planToTSR\<close> returns, and how long its second loop takes\<close>

text \<open>
  With a generator whose count of remaining draws goes down with every draw, both loops
  come to an end: every turn of either loop makes one draw.
\<close>

lemma timed_loop_returns:
  assumes dec: "\<And>g w. canSample env g \<Longrightarrow> remaining (fst (snd (sample env g w))) < (remaining g :: nat)"
  shows "timed_loop env s timelimit per t0 g w calls \<noteq> None"
proof (induction "remaining g" arbitrary: g w calls rule: less_induct)
  case less
  show ?case
  proof (cases "wallclock w - t0 < timelimit \<and> canSample env g")
    case False
    then show ?thesis by (subst timed_loop.simps) (auto simp: Let_def)
  next
    case True
    obtain rs g' w1 where smp: "sample env g w = (rs, g', w1)" by (cases "sample env g w") auto
    from dec[of g w] True smp have lt: "remaining g' < remaining g" by simp
    show ?thesis
    proof (cases rs)
      case (Inl e)
      with True smp show ?thesis by (subst timed_loop.simps) (auto simp: Let_def)
    next
      case (Inr drawn)
      show ?thesis
      proof (cases drawn)
        case None
        from less[OF lt] have
          "timed_loop env s timelimit per t0 g' w1 (calls @ [SampleCall (wallclock w) (Inr None)]) \<noteq> None"
          by blast
        with True smp Inr None show ?thesis by (subst timed_loop.simps) (auto simp: Let_def)
      next
        case (Some goalState)
        define slice where "slice = std_min per (timelimit - (wallclock (w1\<lparr>positions := s\<rparr>) - t0))"
        obtain r w3 calls3 where
          ptc: "planToConfiguration env goalState slice (w1\<lparr>positions := s\<rparr>)
                  (calls @ [SampleCall (wallclock w) rs,
                            Delegate goalState (wallclock (w1\<lparr>positions := s\<rparr>)) slice])
                = (r, w3, calls3)"
          using prod_cases3 by blast
        from less[OF lt] have
          rec: "timed_loop env s timelimit per t0 g' w3 calls3 \<noteq> None"
          by blast
        show ?thesis
          using True smp Inr Some ptc rec
          by (subst timed_loop.simps) (auto simp: slice_def Let_def split: sum.splits option.splits)
      qed
    qed
  qed
qed

lemma snap_loop_returns:
  assumes dec: "\<And>g w. canSample env g \<Longrightarrow> remaining (fst (snd (sample env g w))) < (remaining g :: nat)"
  shows "snap_loop env s timelimit per n g w calls \<noteq> None"
proof (induction "remaining g" arbitrary: g w calls n rule: less_induct)
  case less
  show ?case
  proof (cases "n < maxSnapSamples \<and> canSample env g")
    case False
    from timed_loop_returns[of env remaining s timelimit per "wallclock w" g w] dec
    have "timed_loop env s timelimit per (wallclock w) g w
       (calls @ [TimerStart (wallclock w)]) \<noteq> None" by blast
    with False show ?thesis by (subst snap_loop.simps) (auto simp: timed_phase_def)
  next
    case True
    obtain rs g' w1 where smp: "sample env g w = (rs, g', w1)" by (cases "sample env g w") auto
    from dec[of g w] True smp have lt: "remaining g' < remaining g" by simp
    show ?thesis
    proof (cases rs)
      case (Inl e)
      with True smp show ?thesis by (subst snap_loop.simps) (auto simp: Let_def)
    next
      case (Inr drawn)
      show ?thesis
      proof (cases drawn)
        case None
        from less[OF lt] have
          "snap_loop env s timelimit per n g' w1 (calls @ [SampleCall (wallclock w) (Inr None)]) \<noteq> None"
          by blast
        with True smp Inr None show ?thesis by (subst snap_loop.simps) (auto simp: Let_def)
      next
        case (Some goalState)
        obtain r w3 where snp: "planSnap env s goalState (w1\<lparr>positions := s\<rparr>) = (r, w3)"
          by (cases "planSnap env s goalState (w1\<lparr>positions := s\<rparr>)") auto
        from less[OF lt] have
          rec: "snap_loop env s timelimit per (Suc n) g' w3
                 (calls @ [SampleCall (wallclock w) rs, SnapCall s goalState r]) \<noteq> None"
          by blast
        show ?thesis
          using True smp Inr Some snp rec
          by (subst snap_loop.simps) (auto simp: Let_def split: sum.splits option.splits)
      qed
    qed
  qed
qed

lemma planToTSR_returns:
  assumes "bounded_generator env"
  shows "planToTSR env timelimit n w calls \<noteq> None"
proof -
  from assms obtain remaining :: "'a \<Rightarrow> nat" where
    "\<forall>g w. canSample env g \<longrightarrow> remaining (fst (snd (sample env g w))) < remaining g"
    unfolding bounded_generator_def by blast
  then have "\<And>g w. canSample env g \<Longrightarrow> remaining (fst (snd (sample env g w))) < remaining g"
    by blast
  from snap_loop_returns[of env remaining, OF this] show ?thesis
    by (simp add: planToTSR_def Let_def) 
qed

lemma test_env_bounded: "bounded_generator (test_env draws snap_ok ompl_ok vf_ok)"
  unfolding bounded_generator_def
  by (rule exI[of _ "\<lambda>g. g"]) (simp add: test_env_def)

text \<open>
  With a time limit that is not positive the body of the second loop is never run: the
  timer reads zero when the loop is entered.
\<close>

lemma timed_phase_no_time:
  assumes "timelimit \<le> 0"
  shows "timed_phase env s timelimit per g w calls
           = Some (Inr None, w, calls @ [TimerStart (wallclock w)])"
  using assms by (subst timed_phase_def, subst timed_loop.simps) simp





subsection \<open>The log of \<open>planToTSR\<close>, and two long runs\<close>




text \<open>
  Two runs of \<open>planToTSR\<close> that get through the first loop: 102 draws, no goal within
  reach of Snap, the goal \<open>[2]\<close> within reach of RRTConnect, and a limit of 10.  The first
  loop makes its 100 Snap attempts, which take 100 units of time, and the timer starts at
  100.  With 2 trials the first delegation gets the slice \<open>min (10 / 2) (10 - 0) = 5\<close>; with
  no trial at all it gets \<open>10 - 0 = 10\<close>, and the call returns 11 units after the start of
  the timer.
\<close>

lemma long_run:
  "map_option (\<lambda>out. (fst out, fst (snd out), drop 200 (snd (snd out))))
       (planToTSR (test_env 102 never is_second never) 10 2 test_world [])
     = Some (Inr (Some (Interpolated [[0], [0], [2]])), \<lparr>positions = [0], wallclock = 106\<rparr>,
             [TimerStart 100, SampleCall 100 (Inr (Some [2])), Delegate [2] 100 5,
              SnapCall [0] [2] (Inr None),
              OMPLCall [0] [2] 5 collisionResolution (Inr (Some (Interpolated [[0], [0], [2]])))])"
  by (simp add: planToTSR_def snap_loop.simps timed_loop.simps timed_phase_def
      planToConfiguration_def MetaSkeletonStateSaver_def restore_def Let_def test_env_def
      test_world_def is_second_def never_def maxSnapSamples_def double_quotient_def)

lemma long_run_no_trials:
  "map_option (\<lambda>out. (fst out, fst (snd out), drop 200 (snd (snd out))))
       (planToTSR (test_env 102 never is_second never) 10 0 test_world [])
     = Some (Inr (Some (Interpolated [[0], [0], [2]])), \<lparr>positions = [0], wallclock = 111\<rparr>,
             [TimerStart 100, SampleCall 100 (Inr (Some [2])), Delegate [2] 100 10,
              SnapCall [0] [2] (Inr None),
              OMPLCall [0] [2] 10 collisionResolution (Inr (Some (Interpolated [[0], [0], [2]])))])"
  by (simp add: planToTSR_def snap_loop.simps timed_loop.simps timed_phase_def
      planToConfiguration_def MetaSkeletonStateSaver_def restore_def Let_def test_env_def
      test_world_def is_second_def never_def maxSnapSamples_def double_quotient_def)


subsection \<open>The cascade of \<open>planToTSR\<close> and its time limit\<close>

text \<open>
  Claim C2.  \<open>planToTSR\<close> does what the cascade of its specification does, for every
  environment, time limit, number of trials and world: it returns when and only when the
  cascade does, with the same trajectory, null or exception, and it leaves the same
  world.  So the Snap attempts against fresh samples come first, as long as fewer than 100
  were made and the generator can sample; the timer is started only when that search ended
  without a trajectory; the second search goes on as long as the elapsed time is below
  \<open>timelimit\<close> and the generator can sample, each sample being delegated to
  \<open>planToConfiguration\<close> with the slice \<open>min (timelimit / maxNumTrials) (timelimit - elapsed)\<close>
  (for \<open>maxNumTrials = 0\<close>, where the quotient is \<open>+\<infinity>\<close>, with \<open>timelimit - elapsed\<close>); the
  result is that of the first attempt that gave a trajectory, and it is null only when the
  second search could not go on.  Nothing bounds a generator that keeps failing, so it is
  for a bounded generator that \<open>planToTSR\<close> returns.
\<close>

theorem planToTSR_cascade:
  "map_option outcome (planToTSR env timelimit maxNumTrials w calls)
     = spec_planToTSR env timelimit maxNumTrials w
   \<and> (bounded_generator env \<longrightarrow> planToTSR env timelimit maxNumTrials w calls \<noteq> None)"
  using planToTSR_refines[of env timelimit maxNumTrials w calls]
    planToTSR_returns[of env timelimit maxNumTrials w calls]
  by blast

theorem planToTSR_cascade_witness:
  "bounded_generator (test_env 102 never is_second never)
   \<and> planToTSR (test_env 102 never is_second never) 10 2 test_world [] \<noteq> None
   \<and> spec_planToTSR (test_env 102 never is_second never) 10 2 test_world
       = Some (Inr (Some (Interpolated [[0], [0], [2]])), \<lparr>positions = [0], wallclock = 106\<rparr>)"
proof -
  note inst = planToTSR_cascade [of "test_env 102 never is_second never" 10 2 test_world "[]"]
  from long_run obtain out where
    run: "planToTSR (test_env 102 never is_second never) 10 2 test_world [] = Some out"
    and out: "fst out = Inr (Some (Interpolated [[0], [0], [2]]))"
      "fst (snd out) = \<lparr>positions = [0], wallclock = 106\<rparr>"
    by auto
  from inst run out have "spec_planToTSR (test_env 102 never is_second never) 10 2 test_world
       = Some (Inr (Some (Interpolated [[0], [0], [2]])), \<lparr>positions = [0], wallclock = 106\<rparr>)"
    by (simp add: outcome_def)
  with inst test_env_bounded show ?thesis by blast
qed





subsection \<open>Norms, rotations and the builder of the offset TSRs\<close>

text \<open>
  Negating a vector negates its components exactly, in doubles as in the reals, so the
  norm is the same.  In exact arithmetic the normalized vector of the negated vector is
  the negated one, and the normalized vector does not depend on the length.
\<close>

lemma norm3_neg3: "norm3 (neg3 v) = norm3 v"
  by (cases v) simp

lemma normalize3_neg3: "normalize3 (neg3 v) = neg3 (normalize3 v)"
  by (cases v) simp

lemma norm3_along_z: "norm3 (0, 0, z) = \<bar>z\<bar>"
  by simp

lemma norm3_scale3: "norm3 (scale3 c v) = \<bar>c\<bar> * norm3 v"
proof (cases v)
  case (fields x y z)
  have "c * x * (c * x) + c * y * (c * y) + c * z * (c * z) = c\<^sup>2 * (x * x + y * y + z * z)"
    by (simp add: power2_eq_square algebra_simps)
  then show ?thesis using fields
    by (simp add: real_sqrt_mult)
qed

lemma normalize3_scale3:
  assumes "0 < c" "norm3 v \<noteq> 0"
  shows "normalize3 (scale3 c v) = normalize3 v"
proof (cases v)
  case (fields x y z)
  have n: "norm3 (c * x, c * y, c * z) = c * norm3 (x, y, z)"
    using norm3_scale3[of c "(x, y, z)"] assms(1) by simp
  show ?thesis using fields assms n
    by (simp del: norm3.simps)
qed

lemma mat_mult_Identity3: "mat_mult R Identity3 = R"
  by (cases R rule: prod_cases3, case_tac a rule: prod_cases3, case_tac b rule: prod_cases3, case_tac c rule: prod_cases3)
     (simp add: Identity3_def)

lemma mat_vec_z: "mat_vec R (0, 0, d) = scale3 d (mat_vec R UnitZ)"
  by (cases R rule: prod_cases3, case_tac a rule: prod_cases3, case_tac b rule: prod_cases3, case_tac c rule: prod_cases3)
     (simp add: UnitZ_def)

lemma look_at_ok:
  assumes "1 / 10 ^ 6 \<le> norm3 direction"
  shows "getLookAtIsometry env p direction
           = Inr \<lparr>rotation = fromTwoVectors env UnitZ direction, translation = p\<rparr>"
  using assms by (simp add: getLookAtIsometry_def Identity_def)

lemma builder_result:
  assumes "1 / 10 ^ 6 \<le> norm3 direction" and "g \<noteq> c"
  shows "\<exists>store'.
      getGoalAndConstraintTSRForEndEffectorOffset env w direction distance (Some g) (Some c)
          positionTolerance angularTolerance store = Inr (True, store')
    \<and> translation (T0_w (store' c)) = translation (getWorldTransform env w)
    \<and> rotation (T0_w (store' c)) = fromTwoVectors env UnitZ direction
    \<and> (mat_vec (fromTwoVectors env UnitZ direction) UnitZ = normalize3 direction \<longrightarrow>
          z_axis (T0_w (store' c)) = normalize3 direction)
    \<and> rotation (T0_w (store' g)) = rotation (T0_w (store' c))
    \<and> translation (T0_w (store' g))
         = add3 (scale3 distance (z_axis (T0_w (store' c)))) (translation (T0_w (store' c)))
    \<and> Tw_e (store' g) = iso_mult (iso_inverse (T0_w (store' c))) (getWorldTransform env w)
    \<and> Tw_e (store' c) = iso_mult (iso_inverse (T0_w (store' c))) (getWorldTransform env w)
    \<and> Bw (store' g) = [(0, 0), (0, 0), (0, 0), (0, 0), (0, 0), (0, 0)]
    \<and> Bw (store' c) =
         [(- positionTolerance, positionTolerance), (- positionTolerance, positionTolerance),
          (0, distance),
          (- angularTolerance, angularTolerance), (- angularTolerance, angularTolerance),
          (- angularTolerance, angularTolerance)]"
  using assms
  by (simp add: getGoalAndConstraintTSRForEndEffectorOffset_def look_at_ok Let_def z_axis_def
      iso_mult_def Identity_def mat_mult_Identity3 mat_vec_z numeral_eq_Suc)

text \<open>With a null pointer the builder answers \<^verbatim>\<open>false\<close> and writes nothing.\<close>

lemma builder_null:
  assumes "goal = None \<or> constraint = None"
  shows "getGoalAndConstraintTSRForEndEffectorOffset env w direction distance goal constraint
           positionTolerance angularTolerance store = Inr (False, store)"
  using assms
  by (auto simp: getGoalAndConstraintTSRForEndEffectorOffset_def split: option.splits)

text \<open>
  The two TSRs that the builder leaves in the store are those of the specification,
  whatever the store held before.
\<close>

lemma builder_spec:
  assumes "1 / 10 ^ 6 \<le> norm3 direction" and "g \<noteq> c"
  shows "\<exists>store'.
      getGoalAndConstraintTSRForEndEffectorOffset env w direction distance (Some g) (Some c)
          positionTolerance angularTolerance store = Inr (True, store')
    \<and> store' g = spec_goal_tsr env w direction distance
    \<and> store' c = spec_constraint_tsr env w direction distance positionTolerance angularTolerance"
  using assms
  by (simp add: getGoalAndConstraintTSRForEndEffectorOffset_def look_at_ok Let_def
      spec_goal_tsr_def spec_constraint_tsr_def spec_look_at_frame_def Identity_def
      numeral_eq_Suc)

text \<open>
  Claim C7.  For a direction that \<open>getLookAtIsometry\<close> accepts and two distinct TSR
  objects, the builder succeeds.  The frame \<open>w\<close> it stores in the constraint TSR sits at
  the world position of the body node and has the rotation that Eigen builds from
  \<open>UnitZ\<close> and the direction; when that rotation sends \<open>UnitZ\<close> to the normalized direction,
  as Eigen documents, the z-axis of the frame is the normalized direction.  The goal
  frame is that frame moved by \<open>distance\<close> along its z-axis, the goal bounds are all zero,
  and the constraint bounds are \<open>\<plusminus>positionTolerance\<close> on x and y, \<open>[0, distance]\<close> on z
  and \<open>\<plusminus>angularTolerance\<close> on the three rotations.  Both TSRs carry the offset from
  the frame to the end-effector.
\<close>

theorem offset_TSRs:
  assumes "1 / 10 ^ 6 \<le> norm3 direction" and "g \<noteq> c"
  shows "\<exists>store'.
      getGoalAndConstraintTSRForEndEffectorOffset env w direction distance (Some g) (Some c)
          positionTolerance angularTolerance store = Inr (True, store')
    \<and> translation (T0_w (store' c)) = translation (getWorldTransform env w)
    \<and> rotation (T0_w (store' c)) = fromTwoVectors env UnitZ direction
    \<and> (mat_vec (fromTwoVectors env UnitZ direction) UnitZ = normalize3 direction \<longrightarrow>
          z_axis (T0_w (store' c)) = normalize3 direction)
    \<and> rotation (T0_w (store' g)) = rotation (T0_w (store' c))
    \<and> translation (T0_w (store' g))
         = add3 (scale3 distance (z_axis (T0_w (store' c)))) (translation (T0_w (store' c)))
    \<and> Tw_e (store' g) = iso_mult (iso_inverse (T0_w (store' c))) (getWorldTransform env w)
    \<and> Tw_e (store' c) = iso_mult (iso_inverse (T0_w (store' c))) (getWorldTransform env w)
    \<and> Bw (store' g) = [(0, 0), (0, 0), (0, 0), (0, 0), (0, 0), (0, 0)]
    \<and> Bw (store' c) =
         [(- positionTolerance, positionTolerance), (- positionTolerance, positionTolerance),
          (0, distance),
          (- angularTolerance, angularTolerance), (- angularTolerance, angularTolerance),
          (- angularTolerance, angularTolerance)]"
  using assms by (rule builder_result)

theorem offset_TSRs_witness:
  "1 / 10 ^ 6 \<le> norm3 (0, 0, 1) \<and> (0 :: nat) \<noteq> 1
   \<and> mat_vec (fromTwoVectors (test_env 0 never never never) UnitZ (0, 0, 1)) UnitZ
        = normalize3 (0, 0, 1)
   \<and> (case getGoalAndConstraintTSRForEndEffectorOffset (test_env 0 never never never) test_world
             (0, 0, 1) 2 (Some 0) (Some 1) (1 / 1000) (1 / 100) empty_store of
         Inl e \<Rightarrow> False
       | Inr (success, store') \<Rightarrow>
           success \<and> z_axis (T0_w (store' 1)) = (0, 0, 1)
           \<and> translation (T0_w (store' 0)) = (0, 0, 2)
           \<and> Bw (store' 0) = [(0, 0), (0, 0), (0, 0), (0, 0), (0, 0), (0, 0)]
           \<and> Bw (store' 1) = [(- (1 / 1000), 1 / 1000), (- (1 / 1000), 1 / 1000), (0, 2),
                 (- (1 / 100), 1 / 100), (- (1 / 100), 1 / 100), (- (1 / 100), 1 / 100)])"
proof -
  have n: "1 / 10 ^ 6 \<le> norm3 (0, 0, 1)" by simp
  have d: "(0 :: nat) \<noteq> 1" by simp
  have e: "mat_vec (fromTwoVectors (test_env 0 never never never) UnitZ (0, 0, 1)) UnitZ
        = normalize3 (0, 0, 1)"
    by (simp add: test_env_def Identity3_def UnitZ_def)
  from offset_TSRs [OF n d, of "test_env 0 never never never" test_world 2 "1 / 1000" "1 / 100"
      empty_store] e
  obtain store' where
    "getGoalAndConstraintTSRForEndEffectorOffset (test_env 0 never never never) test_world
             (0, 0, 1) 2 (Some 0) (Some 1) (1 / 1000) (1 / 100) empty_store = Inr (True, store')"
    "z_axis (T0_w (store' 1)) = normalize3 (0, 0, 1)"
    "translation (T0_w (store' 0))
       = add3 (scale3 2 (z_axis (T0_w (store' 1)))) (translation (T0_w (store' 1)))"
    "translation (T0_w (store' 1)) = translation (getWorldTransform (test_env 0 never never never) test_world)"
    "Bw (store' 0) = [(0, 0), (0, 0), (0, 0), (0, 0), (0, 0), (0, 0)]"
    "Bw (store' 1) = [(- (1 / 1000), 1 / 1000), (- (1 / 1000), 1 / 1000), (0, 2),
                 (- (1 / 100), 1 / 100), (- (1 / 100), 1 / 100), (- (1 / 100), 1 / 100)]"
    by auto
  with n d e show ?thesis
    by (simp add: test_env_def Identity_def)
qed

subsection \<open>What the offset planners call\<close>

lemma planToTSRwithTrajectoryConstraint_unfold:
  "planToTSRwithTrajectoryConstraint env held goalTsr constraintTsr timelimit crrtParameters
       w calls
     = (if held then None
        else Some (fst (planCRRT env goalTsr constraintTsr timelimit crrtParameters w),
                   (snd (planCRRT env goalTsr constraintTsr timelimit crrtParameters w))
                     \<lparr>positions := positions w\<rparr>,
                   calls @ [CRRTCall goalTsr constraintTsr timelimit crrtParameters
                     (fst (planCRRT env goalTsr constraintTsr timelimit crrtParameters w))]))"
  by (simp add: planToTSRwithTrajectoryConstraint_def lock_guard_def MetaSkeletonStateSaver_def
      restore_def Let_def split: prod.splits)

lemma planToEndEffectorOffsetByCRRT_zero:
  assumes "norm3 direction = 0"
  shows "planToEndEffectorOffsetByCRRT env held direction distance timelimit positionTolerance
           angularTolerance crrtParameters w calls = Some (Inl zero_direction_error, w, calls)"
  using assms by (simp add: planToEndEffectorOffsetByCRRT_def zero_direction_error_def)

text \<open>
  With a direction that passes the zero check and whose normalized vector passes the check
  of \<open>getLookAtIsometry\<close>, the constrained planner is called with the TSRs of the
  specification for the canonical direction and distance.
\<close>

lemma planToEndEffectorOffsetByCRRT_plans:
  assumes "norm3 d \<noteq> 0" and "1 / 10 ^ 6 \<le> norm3 (normalized env d)"
  shows "planToEndEffectorOffsetByCRRT env held d distance timelimit positionTolerance
           angularTolerance crrtParameters w calls
     = (if held then None
        else Some (spec_offset_plan env d distance timelimit positionTolerance angularTolerance
                     crrtParameters w calls))"
proof -
  define dir where "dir = canonical_direction env d distance"
  have ok: "1 / 10 ^ 6 \<le> norm3 dir"
    using assms(2) by (simp add: dir_def canonical_direction_def norm3_neg3)
  have ne: "(0 :: nat) \<noteq> Suc 0" by simp
  from builder_spec[OF ok ne, of env w "\<bar>distance\<bar>" positionTolerance angularTolerance empty_store]
  obtain store' where
    built: "getGoalAndConstraintTSRForEndEffectorOffset env w dir \<bar>distance\<bar> (Some 0) (Some (Suc 0))
          positionTolerance angularTolerance empty_store = Inr (True, store')"
    and g: "store' 0 = spec_goal_tsr env w dir \<bar>distance\<bar>"
    and c: "store' (Suc 0) = spec_constraint_tsr env w dir \<bar>distance\<bar> positionTolerance
              angularTolerance"
    by auto
  have "planToEndEffectorOffsetByCRRT env held d distance timelimit positionTolerance
           angularTolerance crrtParameters w calls
     = planToTSRwithTrajectoryConstraint env held (store' 0) (store' (Suc 0)) timelimit
         crrtParameters w calls"
    using assms(1) built
    by (auto simp: planToEndEffectorOffsetByCRRT_def dir_def canonical_direction_def Let_def
        abs_if)
  then show ?thesis
    unfolding g c dir_def
    by (simp add: planToTSRwithTrajectoryConstraint_unfold spec_offset_plan_def Let_def
        split: prod.splits)
qed

text \<open>
  When \<^verbatim>\<open>normalize()\<close> of the negated direction gives the negated vector, a call with a
  negative distance is the call with the direction and the distance negated.
\<close>

lemma planToEndEffectorOffsetByCRRT_flip:
  assumes "norm3 d \<noteq> 0" and "distance < 0"
    and "normalized env (neg3 d) = neg3 (normalized env d)"
  shows "planToEndEffectorOffsetByCRRT env held d distance timelimit positionTolerance
           angularTolerance crrtParameters w calls
       = planToEndEffectorOffsetByCRRT env held (neg3 d) (- distance) timelimit
           positionTolerance angularTolerance crrtParameters w calls"
  using assms
  by (simp add: planToEndEffectorOffsetByCRRT_def norm3_neg3 Let_def)

text \<open>
  Two directions with the same normalized vector give the same call.
\<close>

lemma planToEndEffectorOffsetByCRRT_same_normalized:
  assumes "norm3 d \<noteq> 0" and "norm3 d' \<noteq> 0"
    and "normalized env d' = normalized env d"
  shows "planToEndEffectorOffsetByCRRT env held d' distance timelimit positionTolerance
           angularTolerance crrtParameters w calls
       = planToEndEffectorOffsetByCRRT env held d distance timelimit positionTolerance
           angularTolerance crrtParameters w calls"
  using assms
  by (simp add: planToEndEffectorOffsetByCRRT_def Let_def)

lemma planToEndEffectorOffset_unfold:
  "planToEndEffectorOffset env held direction distance timelimit positionTolerance
       angularTolerance vfParameters crrtParameters w calls =
     (if held then None
      else map_option (restore (positions w))
       (case planVF env (vf_args direction distance timelimit positionTolerance angularTolerance
               vfParameters) w of
          (traj, w1) \<Rightarrow>
            (case traj of
               Inl e \<Rightarrow> Some (Inl e, w1, calls @ [VFCall (vf_args direction distance timelimit
                   positionTolerance angularTolerance vfParameters) traj])
             | Inr None \<Rightarrow>
                 planToEndEffectorOffsetByCRRT env True direction distance timelimit
                   positionTolerance angularTolerance crrtParameters w1
                   (calls @ [VFCall (vf_args direction distance timelimit
                   positionTolerance angularTolerance vfParameters) traj])
             | Inr (Some found) \<Rightarrow>
                 Some (Inr (Some found), w1, calls @ [VFCall (vf_args direction distance
                   timelimit positionTolerance angularTolerance vfParameters) traj]))))"
  by (simp add: planToEndEffectorOffset_def lock_guard_def Let_def vf_args_def
      split: prod.splits sum.splits option.splits)

text \<open>
  When the vector-field planner gives a trajectory or throws, that is what
  \<open>planToEndEffectorOffset\<close> returns, with the skeleton put back.
\<close>

lemma planToEndEffectorOffset_first_stage:
  assumes "fst (planVF env (vf_args d distance timelimit positionTolerance angularTolerance
             vfParameters) w) \<noteq> Inr None"
  shows "planToEndEffectorOffset env False d distance timelimit positionTolerance
           angularTolerance vfParameters crrtParameters w calls
     = Some (fst (planVF env (vf_args d distance timelimit positionTolerance angularTolerance
                vfParameters) w),
             (snd (planVF env (vf_args d distance timelimit positionTolerance angularTolerance
                vfParameters) w))\<lparr>positions := positions w\<rparr>,
             calls @ [VFCall (vf_args d distance timelimit positionTolerance angularTolerance
                vfParameters)
               (fst (planVF env (vf_args d distance timelimit positionTolerance angularTolerance
                  vfParameters) w))])"
  using assms
  by (auto simp: planToEndEffectorOffset_unfold restore_def split: prod.splits sum.splits
      option.splits)

text \<open>
  When the vector-field planner gives null, the fallback runs with the mutex held.  With a
  zero direction it throws before it comes to the lock; otherwise it builds its TSRs and
  never comes back from the second lock.
\<close>

lemma planToEndEffectorOffset_fallback_zero:
  assumes "norm3 d = 0"
    and "fst (planVF env (vf_args d distance timelimit positionTolerance angularTolerance
             vfParameters) w) = Inr None"
  shows "planToEndEffectorOffset env False d distance timelimit positionTolerance
           angularTolerance vfParameters crrtParameters w calls
     = Some (Inl zero_direction_error,
             (snd (planVF env (vf_args d distance timelimit positionTolerance angularTolerance
                vfParameters) w))\<lparr>positions := positions w\<rparr>,
             calls @ [VFCall (vf_args d distance timelimit positionTolerance angularTolerance
                vfParameters) (Inr None)])"
  using assms
  by (auto simp: planToEndEffectorOffset_unfold planToEndEffectorOffsetByCRRT_zero restore_def
      split: prod.splits)

lemma planToEndEffectorOffset_fallback_relock:
  assumes "norm3 d \<noteq> 0" and "1 / 10 ^ 6 \<le> norm3 (normalized env d)"
    and "fst (planVF env (vf_args d distance timelimit positionTolerance angularTolerance
             vfParameters) w) = Inr None"
  shows "planToEndEffectorOffset env False d distance timelimit positionTolerance
           angularTolerance vfParameters crrtParameters w calls = None"
  using assms(3)
  by (auto simp: planToEndEffectorOffset_unfold planToEndEffectorOffsetByCRRT_plans[OF assms(1,2)]
      split: prod.splits)

subsection \<open>Zero directions and negative distances\<close>

text \<open>
  Claim C5.  As amended.  \<open>planToEndEffectorOffsetByCRRT\<close> with a direction of length zero
  throws the zero-direction error at once: no TSR is built, no planner called, no lock
  taken, the world untouched.  \<open>planToEndEffectorOffset\<close> does not look at the direction
  itself: it returns, and its first call is the vector-field planner, with the direction as
  given.  Only if that planner returns null is the zero-direction error thrown, by the
  fallback, before any constrained planning.  The call never returns null.
\<close>

theorem zero_direction:
  assumes "norm3 direction = 0"
  shows "planToEndEffectorOffsetByCRRT env held direction distance timelimit positionTolerance
           angularTolerance crrtParameters w calls = Some (Inl zero_direction_error, w, calls)
     \<and> planToEndEffectorOffset env False direction distance timelimit
           positionTolerance angularTolerance vfParameters crrtParameters w [] \<noteq> None
     \<and> take 1 (snd (snd (the (planToEndEffectorOffset env False direction distance timelimit
           positionTolerance angularTolerance vfParameters crrtParameters w []))))
       = [VFCall (vf_args direction distance timelimit positionTolerance angularTolerance vfParameters)
            (fst (planVF env (vf_args direction distance timelimit positionTolerance
               angularTolerance vfParameters) w))]
     \<and> (fst (planVF env (vf_args direction distance timelimit positionTolerance
               angularTolerance vfParameters) w) = Inr None \<longrightarrow>
          fst (the (planToEndEffectorOffset env False direction distance timelimit
           positionTolerance angularTolerance vfParameters crrtParameters w []))
            = Inl zero_direction_error
        \<and> snd (snd (the (planToEndEffectorOffset env False direction distance timelimit
           positionTolerance angularTolerance vfParameters crrtParameters w [])))
            = [VFCall (vf_args direction distance timelimit positionTolerance angularTolerance
                 vfParameters) (Inr None)])
     \<and> fst (the (planToEndEffectorOffset env False direction distance timelimit
           positionTolerance angularTolerance vfParameters crrtParameters w [])) \<noteq> Inr None"
proof (cases "fst (planVF env (vf_args direction distance timelimit positionTolerance
               angularTolerance vfParameters) w) = Inr None")
  case True
  from planToEndEffectorOffset_fallback_zero[OF assms True, of crrtParameters "[]"]
    planToEndEffectorOffsetByCRRT_zero[OF assms, of env held distance timelimit
      positionTolerance angularTolerance crrtParameters w calls] True
  show ?thesis by simp
next
  case False
  from planToEndEffectorOffset_first_stage[OF False, of crrtParameters "[]"]
    planToEndEffectorOffsetByCRRT_zero[OF assms, of env held distance timelimit
      positionTolerance angularTolerance crrtParameters w calls] False
  show ?thesis by simp
qed

theorem zero_direction_witness:
  "norm3 (0, 0, 0) = 0
   \<and> planToEndEffectorOffsetByCRRT (test_env 0 never never never) False (0, 0, 0) 1 5 (1 / 1000)
       (1 / 1000) test_crrt_parameters test_world []
     = Some (Inl zero_direction_error, test_world, [])
   \<and> fst (the (planToEndEffectorOffset (test_env 0 never never never) False (0, 0, 0) 1 5
       (1 / 1000) (1 / 1000) test_vf_parameters test_crrt_parameters test_world []))
     = Inl zero_direction_error"
proof -
  have z: "norm3 (0, 0, 0) = 0" by simp
  have vf: "fst (planVF (test_env 0 never never never)
      (vf_args (0, 0, 0) 1 5 (1 / 1000) (1 / 1000) test_vf_parameters) test_world) = Inr None"
    by (simp add: test_env_def never_def)
  from zero_direction [OF z, of "test_env 0 never never never" False 1 5 "1 / 1000" "1 / 1000"
      test_crrt_parameters test_world "[]" test_vf_parameters] vf z
  show ?thesis by simp
qed

text \<open>
  Claim C5 as stated fails for \<open>planToEndEffectorOffset\<close>: with a zero direction the
  vector-field stage runs (and takes its time) before the error is thrown, and when that
  stage returns a trajectory no error is thrown at all.
\<close>

theorem zero_direction_counterexample:
  "planToEndEffectorOffset (test_env 0 never never never) False (0, 0, 0) 1 5 (1 / 1000)
       (1 / 1000) test_vf_parameters test_crrt_parameters test_world []
     = Some (Inl zero_direction_error, \<lparr>positions = [0], wallclock = 1\<rparr>,
        [VFCall (vf_args (0, 0, 0) 1 5 (1 / 1000) (1 / 1000) test_vf_parameters) (Inr None)])
   \<and> planToEndEffectorOffset (test_env 0 never never always) False (0, 0, 0) 1 5 (1 / 1000)
       (1 / 1000) test_vf_parameters test_crrt_parameters test_world []
     = Some (Inr (Some (Spline [[0]])), \<lparr>positions = [0], wallclock = 1\<rparr>,
        [VFCall (vf_args (0, 0, 0) 1 5 (1 / 1000) (1 / 1000) test_vf_parameters)
           (Inr (Some (Spline [[0]])))])"
  by (simp add: planToEndEffectorOffset_unfold planToEndEffectorOffsetByCRRT_def restore_def
      test_env_def test_world_def never_def always_def zero_direction_error_def)

text \<open>
  Claim C6.  As amended.  The canonical form is made by \<open>planToEndEffectorOffsetByCRRT\<close>.
  Called with the mutex free and a direction that passes the zero check and whose
  normalized vector passes the check of \<open>getLookAtIsometry\<close>, it does what the specification
  says: it takes the normalized direction and the distance, both with their sign changed
  when the distance is negative, and asks the constrained planner for exactly the problem
  of that direction and distance.  So, \<^verbatim>\<open>normalize()\<close> giving the negated vector for the
  negated direction, a call with a direction \<open>d\<close> and a negative distance is the call with
  \<open>- d\<close> and the distance negated.  \<open>planToEndEffectorOffset\<close> does none of this before its
  first stage: the vector-field planner gets the direction as given and the distance, less
  and plus the tolerances, with its sign, and what that planner gives, if it is not null,
  is the result.
\<close>

theorem offset_flip:
  assumes "norm3 d \<noteq> 0" and "1 / 10 ^ 6 \<le> norm3 (normalized env d)"
  shows "planToEndEffectorOffsetByCRRT env held d distance timelimit positionTolerance
           angularTolerance crrtParameters w calls
       = (if held then None
          else Some (spec_offset_plan env d distance timelimit positionTolerance
                       angularTolerance crrtParameters w calls))
     \<and> (distance < 0 \<and> normalized env (neg3 d) = neg3 (normalized env d) \<longrightarrow>
          planToEndEffectorOffsetByCRRT env held d distance timelimit positionTolerance
            angularTolerance crrtParameters w calls
          = planToEndEffectorOffsetByCRRT env held (neg3 d) (- distance) timelimit
              positionTolerance angularTolerance crrtParameters w calls)
     \<and> (fst (planVF env (vf_args d distance timelimit positionTolerance angularTolerance
             vfParameters) w) \<noteq> Inr None \<longrightarrow>
          planToEndEffectorOffset env False d distance timelimit positionTolerance
            angularTolerance vfParameters crrtParameters w calls
          = Some (fst (planVF env (vf_args d distance timelimit positionTolerance
                     angularTolerance vfParameters) w),
                  (snd (planVF env (vf_args d distance timelimit positionTolerance
                     angularTolerance vfParameters) w))\<lparr>positions := positions w\<rparr>,
                  calls @ [VFCall (vf_args d distance timelimit positionTolerance
                     angularTolerance vfParameters)
                    (fst (planVF env (vf_args d distance timelimit positionTolerance
                       angularTolerance vfParameters) w))]))"
proof (intro conjI impI)
  show "planToEndEffectorOffsetByCRRT env held d distance timelimit positionTolerance
           angularTolerance crrtParameters w calls
       = (if held then None
          else Some (spec_offset_plan env d distance timelimit positionTolerance
                       angularTolerance crrtParameters w calls))"
    using assms by (rule planToEndEffectorOffsetByCRRT_plans)
next
  assume "distance < 0 \<and> normalized env (neg3 d) = neg3 (normalized env d)"
  then have neg: "distance < 0" and odd: "normalized env (neg3 d) = neg3 (normalized env d)"
    by simp_all
  from assms(1) neg odd
  show "planToEndEffectorOffsetByCRRT env held d distance timelimit
            positionTolerance angularTolerance crrtParameters w calls
          = planToEndEffectorOffsetByCRRT env held (neg3 d) (- distance) timelimit
              positionTolerance angularTolerance crrtParameters w calls"
    by (rule planToEndEffectorOffsetByCRRT_flip)
next
  assume "fst (planVF env (vf_args d distance timelimit positionTolerance angularTolerance
             vfParameters) w) \<noteq> Inr None"
  then show "planToEndEffectorOffset env False d distance timelimit positionTolerance
            angularTolerance vfParameters crrtParameters w calls
          = Some (fst (planVF env (vf_args d distance timelimit positionTolerance
                     angularTolerance vfParameters) w),
                  (snd (planVF env (vf_args d distance timelimit positionTolerance
                     angularTolerance vfParameters) w))\<lparr>positions := positions w\<rparr>,
                  calls @ [VFCall (vf_args d distance timelimit positionTolerance
                     angularTolerance vfParameters)
                    (fst (planVF env (vf_args d distance timelimit positionTolerance
                       angularTolerance vfParameters) w))])"
    by (rule planToEndEffectorOffset_first_stage)
qed

theorem offset_flip_witness:
  "norm3 (0, 0, 1) \<noteq> 0
   \<and> 1 / 10 ^ 6 \<le> norm3 (normalized (test_env 0 never never never) (0, 0, 1))
   \<and> (- 1 :: real) < 0
   \<and> normalized (test_env 0 never never never) (neg3 (0, 0, 1))
       = neg3 (normalized (test_env 0 never never never) (0, 0, 1))
   \<and> canonical_direction (test_env 0 never never never) (0, 0, 1) (- 1) = (0, 0, - 1)
   \<and> planToEndEffectorOffsetByCRRT (test_env 0 never never never) False (0, 0, 1) (- 1) 5
        (1 / 1000) (1 / 1000) test_crrt_parameters test_world []
     = Some (spec_offset_plan (test_env 0 never never never) (0, 0, 1) (- 1) 5
        (1 / 1000) (1 / 1000) test_crrt_parameters test_world [])
   \<and> planToEndEffectorOffsetByCRRT (test_env 0 never never never) False (0, 0, 1) (- 1) 5
        (1 / 1000) (1 / 1000) test_crrt_parameters test_world []
     = planToEndEffectorOffsetByCRRT (test_env 0 never never never) False (0, 0, - 1) 1 5
        (1 / 1000) (1 / 1000) test_crrt_parameters test_world []
   \<and> T0_w (spec_goal_tsr (test_env 0 never never never) test_world (0, 0, - 1) 1)
     = \<lparr>rotation = ((1, 0, 0), (0, - 1, 0), (0, 0, - 1)), translation = (0, 0, - 1)\<rparr>"
proof -
  have n: "norm3 (0, 0, 1) \<noteq> 0" by simp
  have a: "1 / 10 ^ 6 \<le> norm3 (normalized (test_env 0 never never never) (0, 0, 1))"
    by (simp add: test_env_def)
  have d: "(- 1 :: real) < 0" by simp
  have odd: "normalized (test_env 0 never never never) (neg3 (0, 0, 1))
       = neg3 (normalized (test_env 0 never never never) (0, 0, 1))"
    by (simp add: test_env_def)
  have c: "canonical_direction (test_env 0 never never never) (0, 0, 1) (- 1) = (0, 0, - 1)"
    by (simp add: canonical_direction_def test_env_def)
  have g: "T0_w (spec_goal_tsr (test_env 0 never never never) test_world (0, 0, - 1) 1)
     = \<lparr>rotation = ((1, 0, 0), (0, - 1, 0), (0, 0, - 1)), translation = (0, 0, - 1)\<rparr>"
    by (simp add: spec_goal_tsr_def spec_look_at_frame_def iso_mult_def test_env_def UnitZ_def
        Identity_def Identity3_def)
  from offset_flip [OF n a, of False "- 1" 5 "1 / 1000"
      "1 / 1000" test_crrt_parameters test_world "[]" test_vf_parameters] n a d odd c g
  show ?thesis by (intro conjI) auto
qed

text \<open>
  Claim C6 as stated fails for \<open>planToEndEffectorOffset\<close>.  With a vector-field planner
  that throws on a negative least distance, distance \<open>-1\<close> along \<open>(0, 0, 1)\<close> ends in that
  exception and distance \<open>1\<close> along \<open>(0, 0, -1)\<close> in a trajectory.  With one that answers
  null instead of throwing, the first call goes on to its fallback, from which it does not
  return, and the second returns the trajectory.
\<close>

theorem offset_flip_counterexample:
  "planToEndEffectorOffset strict_vf_env False (0, 0, 1) (- 1) 5 (1 / 1000) (1 / 1000)
       test_vf_parameters test_crrt_parameters test_world []
     = Some (Inl (RuntimeError ''Distance must be non-negative''),
             \<lparr>positions = [0], wallclock = 1\<rparr>,
             [VFCall (vf_args (0, 0, 1) (- 1) 5 (1 / 1000) (1 / 1000) test_vf_parameters)
                (Inl (RuntimeError ''Distance must be non-negative''))])
   \<and> planToEndEffectorOffset strict_vf_env False (0, 0, - 1) 1 5 (1 / 1000) (1 / 1000)
       test_vf_parameters test_crrt_parameters test_world []
     = Some (Inr (Some (Spline [[0]])), \<lparr>positions = [0], wallclock = 1\<rparr>,
             [VFCall (vf_args (0, 0, - 1) 1 5 (1 / 1000) (1 / 1000) test_vf_parameters)
                (Inr (Some (Spline [[0]])))])
   \<and> planToEndEffectorOffset (test_env 0 never never forward_only) False (0, 0, 1) (- 1) 5
       (1 / 1000) (1 / 1000) test_vf_parameters test_crrt_parameters test_world [] = None
   \<and> planToEndEffectorOffset (test_env 0 never never forward_only) False (0, 0, - 1) 1 5
       (1 / 1000) (1 / 1000) test_vf_parameters test_crrt_parameters test_world []
     = Some (Inr (Some (Spline [[0]])), \<lparr>positions = [0], wallclock = 1\<rparr>,
             [VFCall (vf_args (0, 0, - 1) 1 5 (1 / 1000) (1 / 1000) test_vf_parameters)
                (Inr (Some (Spline [[0]])))])"
  by (simp add: planToEndEffectorOffset_unfold planToEndEffectorOffsetByCRRT_def restore_def
      strict_vf_env_def test_env_def test_world_def forward_only_def vf_args_def
      test_vf_parameters_def never_def
      getGoalAndConstraintTSRForEndEffectorOffset_def getLookAtIsometry_def Let_def
      planToTSRwithTrajectoryConstraint_def lock_guard_def)

text \<open>
  Claim C10.  As amended.  \<open>planToEndEffectorOffsetByCRRT\<close> builds its TSRs from the vector
  that \<^verbatim>\<open>normalize()\<close> computes from the direction, and from nothing else of the direction:
  for a direction that passes the two checks the constrained planner is asked for the
  problem of the specification for that vector, and any other direction that is not zero
  and for which \<^verbatim>\<open>normalize()\<close> computes the same vector leads to the same call, with the
  same goal and constraint TSRs.  Where \<^verbatim>\<open>normalize()\<close> computes for \<open>d\<close> and for \<open>c d\<close>,
  \<open>c\<close> positive, what exact arithmetic gives, that is the case for \<open>d\<close> and \<open>c d\<close>.
\<close>

theorem offset_direction_scale:
  assumes "norm3 d \<noteq> 0" and "1 / 10 ^ 6 \<le> norm3 (normalized env d)"
  shows "planToEndEffectorOffsetByCRRT env held d distance timelimit positionTolerance
           angularTolerance crrtParameters w calls
       = (if held then None
          else Some (spec_offset_plan env d distance timelimit positionTolerance
                       angularTolerance crrtParameters w calls))
     \<and> (\<forall>d'. norm3 d' \<noteq> 0 \<and> normalized env d' = normalized env d \<longrightarrow>
            planToEndEffectorOffsetByCRRT env held d' distance timelimit positionTolerance
              angularTolerance crrtParameters w calls
            = planToEndEffectorOffsetByCRRT env held d distance timelimit positionTolerance
                angularTolerance crrtParameters w calls)
     \<and> (\<forall>c. 0 < c \<and> normalized env d = normalize3 d
              \<and> normalized env (scale3 c d) = normalize3 (scale3 c d) \<longrightarrow>
            planToEndEffectorOffsetByCRRT env held (scale3 c d) distance timelimit
              positionTolerance angularTolerance crrtParameters w calls
            = planToEndEffectorOffsetByCRRT env held d distance timelimit positionTolerance
                angularTolerance crrtParameters w calls)"
proof (intro conjI allI impI)
  show "planToEndEffectorOffsetByCRRT env held d distance timelimit positionTolerance
           angularTolerance crrtParameters w calls
       = (if held then None
          else Some (spec_offset_plan env d distance timelimit positionTolerance
                       angularTolerance crrtParameters w calls))"
    using assms by (rule planToEndEffectorOffsetByCRRT_plans)
next
  fix d'
  assume "norm3 d' \<noteq> 0 \<and> normalized env d' = normalized env d"
  then have "norm3 d' \<noteq> 0" and "normalized env d' = normalized env d" by simp_all
  with assms(1)
  show "planToEndEffectorOffsetByCRRT env held d' distance timelimit positionTolerance
              angularTolerance crrtParameters w calls
            = planToEndEffectorOffsetByCRRT env held d distance timelimit positionTolerance
                angularTolerance crrtParameters w calls"
    by (rule planToEndEffectorOffsetByCRRT_same_normalized)
next
  fix c :: real
  assume "0 < c \<and> normalized env d = normalize3 d
              \<and> normalized env (scale3 c d) = normalize3 (scale3 c d)"
  then have c: "0 < c" and exact: "normalized env d = normalize3 d"
    "normalized env (scale3 c d) = normalize3 (scale3 c d)" by simp_all
  from c assms(1) have nz: "norm3 (scale3 c d) \<noteq> 0" by (simp add: norm3_scale3)
  from exact normalize3_scale3[OF c assms(1)]
  have same: "normalized env (scale3 c d) = normalized env d" by simp
  from assms(1) nz same
  show "planToEndEffectorOffsetByCRRT env held (scale3 c d) distance timelimit
              positionTolerance angularTolerance crrtParameters w calls
            = planToEndEffectorOffsetByCRRT env held d distance timelimit positionTolerance
                angularTolerance crrtParameters w calls"
    by (rule planToEndEffectorOffsetByCRRT_same_normalized)
qed

theorem offset_direction_scale_witness:
  "norm3 (0, 0, 1) \<noteq> 0
   \<and> 1 / 10 ^ 6 \<le> norm3 (normalized (test_env 0 never never never) (0, 0, 1))
   \<and> (0 :: real) < 2
   \<and> normalized (test_env 0 never never never) (0, 0, 1) = normalize3 (0, 0, 1)
   \<and> normalized (test_env 0 never never never) (scale3 2 (0, 0, 1))
       = normalize3 (scale3 2 (0, 0, 1))
   \<and> planToEndEffectorOffsetByCRRT (test_env 0 never never never) False (scale3 2 (0, 0, 1)) 1 5
        (1 / 1000) (1 / 1000) test_crrt_parameters test_world []
     = planToEndEffectorOffsetByCRRT (test_env 0 never never never) False (0, 0, 1) 1 5
        (1 / 1000) (1 / 1000) test_crrt_parameters test_world []
   \<and> planToEndEffectorOffsetByCRRT (test_env 0 never never never) False (0, 0, 1) 1 5
        (1 / 1000) (1 / 1000) test_crrt_parameters test_world []
     = Some (spec_offset_plan (test_env 0 never never never) (0, 0, 1) 1 5
        (1 / 1000) (1 / 1000) test_crrt_parameters test_world [])"
proof -
  have n: "norm3 (0, 0, 1) \<noteq> 0" by simp
  have a: "1 / 10 ^ 6 \<le> norm3 (normalized (test_env 0 never never never) (0, 0, 1))"
    by (simp add: test_env_def)
  have c: "(0 :: real) < 2" by simp
  have e1: "normalized (test_env 0 never never never) (0, 0, 1) = normalize3 (0, 0, 1)"
    by (simp add: test_env_def)
  have e2: "normalized (test_env 0 never never never) (scale3 2 (0, 0, 1))
       = normalize3 (scale3 2 (0, 0, 1))"
    by (simp add: test_env_def)
  note inst = offset_direction_scale [OF n a, of False 1 5 "1 / 1000" "1 / 1000"
      test_crrt_parameters test_world "[]"]
  from inst [THEN conjunct2, THEN conjunct2, rule_format, of 2] c e1 e2
  have "planToEndEffectorOffsetByCRRT (test_env 0 never never never) False (scale3 2 (0, 0, 1)) 1 5
        (1 / 1000) (1 / 1000) test_crrt_parameters test_world []
     = planToEndEffectorOffsetByCRRT (test_env 0 never never never) False (0, 0, 1) 1 5
        (1 / 1000) (1 / 1000) test_crrt_parameters test_world []"
    by blast
  moreover from inst [THEN conjunct1]
  have "planToEndEffectorOffsetByCRRT (test_env 0 never never never) False (0, 0, 1) 1 5
        (1 / 1000) (1 / 1000) test_crrt_parameters test_world []
     = Some (spec_offset_plan (test_env 0 never never never) (0, 0, 1) 1 5
        (1 / 1000) (1 / 1000) test_crrt_parameters test_world [])"
    by simp
  ultimately show ?thesis using n a c e1 e2 by (intro conjI)
qed

text \<open>
  Claim C10 as stated fails for long directions.  In doubles the squared norm of
  \<open>(0, 0, 10 ^ 200)\<close> is beyond the largest double, \<^verbatim>\<open>normalize()\<close> leaves the zero vector, and
  \<open>getLookAtIsometry\<close> throws; for \<open>(0, 0, 1)\<close> the constrained planner is called.
\<close>

theorem offset_direction_scale_counterexample:
  "norm3 (0, 0, 1) \<noteq> 0 \<and> (0 :: real) < 10 ^ 200
   \<and> scale3 (10 ^ 200) (0, 0, 1) = (0, 0, 10 ^ 200)
   \<and> planToEndEffectorOffsetByCRRT overflow_env False (0, 0, 10 ^ 200) 1 5 (1 / 1000)
        (1 / 1000) test_crrt_parameters test_world []
     = Some (Inl (RuntimeError ''positionTo cannot be a zero vector.''), test_world, [])
   \<and> planToEndEffectorOffsetByCRRT overflow_env False (0, 0, 1) 1 5 (1 / 1000) (1 / 1000)
        test_crrt_parameters test_world []
     = Some (Inr None, test_world,
             [CRRTCall (spec_goal_tsr overflow_env test_world (0, 0, 1) 1)
                (spec_constraint_tsr overflow_env test_world (0, 0, 1) 1 (1 / 1000) (1 / 1000))
                5 test_crrt_parameters (Inr None)])"
proof -
  have long: "planToEndEffectorOffsetByCRRT overflow_env False (0, 0, 10 ^ 200) 1 5 (1 / 1000)
        (1 / 1000) test_crrt_parameters test_world []
     = Some (Inl (RuntimeError ''positionTo cannot be a zero vector.''), test_world, [])"
    by (simp add: planToEndEffectorOffsetByCRRT_def overflow_env_def test_env_def Let_def
        getGoalAndConstraintTSRForEndEffectorOffset_def getLookAtIsometry_def norm3_along_z
        del: norm3.simps)
  have n: "norm3 (0, 0, 1) \<noteq> 0" by simp
  have a: "1 / 10 ^ 6 \<le> norm3 (normalized overflow_env (0, 0, 1))"
    by (simp add: overflow_env_def test_env_def)
  have short: "planToEndEffectorOffsetByCRRT overflow_env False (0, 0, 1) 1 5 (1 / 1000) (1 / 1000)
        test_crrt_parameters test_world []
     = Some (Inr None, test_world,
             [CRRTCall (spec_goal_tsr overflow_env test_world (0, 0, 1) 1)
                (spec_constraint_tsr overflow_env test_world (0, 0, 1) 1 (1 / 1000) (1 / 1000))
                5 test_crrt_parameters (Inr None)])"
  proof -
    have nv: "normalized overflow_env (0, 0, 1) = (0, 0, 1)"
      by (simp add: overflow_env_def test_env_def)
    have pc: "\<And>goalTsr constraintTsr budget p w.
        planCRRT overflow_env goalTsr constraintTsr budget p w = (Inr None, w\<lparr>positions := []\<rparr>)"
      by (simp add: overflow_env_def test_env_def)
    have "spec_offset_plan overflow_env (0, 0, 1) 1 5 (1 / 1000) (1 / 1000)
            test_crrt_parameters test_world []
        = (Inr None, test_world,
             [CRRTCall (spec_goal_tsr overflow_env test_world (0, 0, 1) 1)
                (spec_constraint_tsr overflow_env test_world (0, 0, 1) 1 (1 / 1000) (1 / 1000))
                5 test_crrt_parameters (Inr None)])"
      by (simp add: spec_offset_plan_def canonical_direction_def Let_def nv pc test_world_def)
    with planToEndEffectorOffsetByCRRT_plans[OF n a, of False 1 5 "1 / 1000" "1 / 1000"
        test_crrt_parameters test_world "[]"]
    show ?thesis by simp
  qed
  from long short n show ?thesis by simp
qed

subsection \<open>The skeleton's positions after a planning call\<close>

text \<open>
  Every planning function that returns, with a trajectory, with null or with an exception,
  leaves the positions of the skeleton as it found them, whatever the collaborators did to
  them.  \<open>planToEndEffectorOffsetByCRRT\<close> declares no saver of its own; it does not write
  to the skeleton before it hands over to \<open>planToTSRwithTrajectoryConstraint\<close>, which
  does.
\<close>

lemma planToTSRwithTrajectoryConstraint_positions:
  assumes "planToTSRwithTrajectoryConstraint env held goalTsr constraintTsr timelimit
             crrtParameters w calls = Some out"
  shows "positions (fst (snd out)) = positions w"
  using assms
  by (auto simp: planToTSRwithTrajectoryConstraint_unfold split: if_splits)

lemma planToEndEffectorOffsetByCRRT_positions:
  assumes "planToEndEffectorOffsetByCRRT env held direction distance timelimit
             positionTolerance angularTolerance crrtParameters w calls = Some out"
  shows "positions (fst (snd out)) = positions w"
  using assms
  by (auto simp: planToEndEffectorOffsetByCRRT_def Let_def
      planToTSRwithTrajectoryConstraint_unfold split: if_splits sum.splits prod.splits)

lemma returns_restore_positions:
  "positions (fst (snd (planToConfiguration env goalState timelimit w calls))) = positions w"
  "positions (fst (snd (planToConfigurations env goalStates timelimit w calls))) = positions w"
  "planToTSR env timelimit n w calls = Some out \<Longrightarrow> positions (fst (snd out)) = positions w"
  "planToEndEffectorOffset env held direction distance timelimit positionTolerance
       angularTolerance vfParameters crrtParameters w calls = Some out
     \<Longrightarrow> positions (fst (snd out)) = positions w"
proof -
  show "positions (fst (snd (planToConfiguration env goalState timelimit w calls))) = positions w"
    unfolding planToConfiguration_def by (rule positions_saver)
  show "positions (fst (snd (planToConfigurations env goalStates timelimit w calls))) = positions w"
    unfolding planToConfigurations_def by (rule positions_saver)
  show "planToTSR env timelimit n w calls = Some out \<Longrightarrow> positions (fst (snd out)) = positions w"
    by (auto simp: planToTSR_def Let_def restore_def)
  show "planToEndEffectorOffset env held direction distance timelimit positionTolerance
       angularTolerance vfParameters crrtParameters w calls = Some out
     \<Longrightarrow> positions (fst (snd out)) = positions w"
    by (auto simp: planToEndEffectorOffset_def lock_guard_def Let_def restore_def
        split: if_splits)
qed

text \<open>
  Claim C4.  The claim is that every planning entry point restores the configuration of
  the skeleton on every exit path, so that no planning call leaves it changed.
  \<open>planToEndEffectorOffset\<close> does not keep to it.  It holds the mutex of the skeleton
  from its first statement to its return, and its fallback ends in
  \<open>planToTSRwithTrajectoryConstraint\<close>, which locks the same mutex again.  So with a
  direction that is not zero and a vector-field planner that answers null, the call never
  returns: the saver of \<open>planToEndEffectorOffset\<close> is never run, and the skeleton stays
  where the vector-field planner left it.  Here the direction is \<open>(0, 0, 1)\<close>, the distance
  1, and the vector-field planner moves the one joint of the skeleton from \<open>[0]\<close> and
  answers null.
\<close>

theorem planToEndEffectorOffset_relock:
  "planToEndEffectorOffset (test_env 0 never never never) False (0, 0, 1) 1 5 (1 / 1000)
       (1 / 1000) test_vf_parameters test_crrt_parameters test_world [] = None
   \<and> planVF (test_env 0 never never never)
         (vf_args (0, 0, 1) 1 5 (1 / 1000) (1 / 1000) test_vf_parameters) test_world
       = (Inr None, \<lparr>positions = [], wallclock = 1\<rparr>)
   \<and> positions test_world = [0]"
  by (simp add: planToEndEffectorOffset_unfold planToEndEffectorOffsetByCRRT_def
      test_env_def test_world_def vf_args_def test_vf_parameters_def never_def
      getGoalAndConstraintTSRForEndEffectorOffset_def getLookAtIsometry_def Let_def
      planToTSRwithTrajectoryConstraint_def lock_guard_def)

subsection \<open>Evaluating a trajectory at and beyond its ends\<close>

lemma increasing_times_nth:
  assumes "increasing_times ws" "i < j" "j < length ws"
  shows "t (ws ! i) < t (ws ! j)"
  using assms by (simp add: increasing_times_def sorted_wrt_iff_nth_less)

lemma increasing_times_nth_le:
  assumes "increasing_times ws" "i \<le> j" "j < length ws"
  shows "t (ws ! i) \<le> t (ws ! j)"
proof (cases "i = j")
  case True
  then show ?thesis by simp
next
  case False
  with assms have "i < j" by simp
  from increasing_times_nth[OF assms(1) this assms(3)] show ?thesis by simp
qed

lemma indexAfterTime_search_correct:
  assumes "increasing_times ws" "lo \<le> hi" "hi \<le> length ws"
  shows "lo \<le> indexAfterTime_search ws x lo hi
       \<and> indexAfterTime_search ws x lo hi \<le> hi
       \<and> (\<forall>i. lo \<le> i \<and> i < indexAfterTime_search ws x lo hi \<longrightarrow> t (ws ! i) \<le> x)
       \<and> (\<forall>i. indexAfterTime_search ws x lo hi \<le> i \<and> i < hi \<longrightarrow> x < t (ws ! i))"
  using assms
proof (induction ws x lo hi rule: indexAfterTime_search.induct)
  case (1 ws x lo hi)
  show ?case
  proof (cases "lo < hi")
    case False
    then have "indexAfterTime_search ws x lo hi = lo"
      by (subst indexAfterTime_search.simps) simp
    with False 1(4) show ?thesis by simp
  next
    case True
    define mid where "mid = (lo + hi) div 2"
    have mid: "lo \<le> mid" "mid < hi" using True by (simp_all add: mid_def)
    show ?thesis
    proof (cases "x < t (ws ! mid)")
      case left: True
      have eq: "indexAfterTime_search ws x lo hi = indexAfterTime_search ws x lo mid"
        using True left by (subst indexAfterTime_search.simps) (simp add: mid_def Let_def)
      have ih: "lo \<le> indexAfterTime_search ws x lo mid
       \<and> indexAfterTime_search ws x lo mid \<le> mid
       \<and> (\<forall>i. lo \<le> i \<and> i < indexAfterTime_search ws x lo mid \<longrightarrow> t (ws ! i) \<le> x)
       \<and> (\<forall>i. indexAfterTime_search ws x lo mid \<le> i \<and> i < mid \<longrightarrow> x < t (ws ! i))"
        using 1(1)[OF True mid_def left 1(3)] mid 1(5) by simp
      have right: "\<forall>i. mid \<le> i \<and> i < hi \<longrightarrow> x < t (ws ! i)"
      proof (intro allI impI)
        fix i assume i: "mid \<le> i \<and> i < hi"
        with 1(5) have "i < length ws" by simp
        from increasing_times_nth_le[OF 1(3) _ this, of mid] i left show "x < t (ws ! i)" by simp
      qed
      show ?thesis unfolding eq
      proof (intro conjI allI impI)
        show "lo \<le> indexAfterTime_search ws x lo mid" using ih by simp
        show "indexAfterTime_search ws x lo mid \<le> hi" using ih mid by simp
        show "t (ws ! i) \<le> x" if "lo \<le> i \<and> i < indexAfterTime_search ws x lo mid" for i
          using ih that by blast
        show "x < t (ws ! i)" if "indexAfterTime_search ws x lo mid \<le> i \<and> i < hi" for i
        proof (cases "i < mid")
          case True
          with ih that show ?thesis by blast
        next
          case False
          with right that show ?thesis by simp
        qed
      qed
    next
      case notleft: False
      have eq: "indexAfterTime_search ws x lo hi = indexAfterTime_search ws x (Suc mid) hi"
        using True notleft by (subst indexAfterTime_search.simps) (simp add: mid_def Let_def)
      have ih: "Suc mid \<le> indexAfterTime_search ws x (Suc mid) hi
       \<and> indexAfterTime_search ws x (Suc mid) hi \<le> hi
       \<and> (\<forall>i. Suc mid \<le> i \<and> i < indexAfterTime_search ws x (Suc mid) hi \<longrightarrow> t (ws ! i) \<le> x)
       \<and> (\<forall>i. indexAfterTime_search ws x (Suc mid) hi \<le> i \<and> i < hi \<longrightarrow> x < t (ws ! i))"
        using 1(2)[OF True mid_def notleft 1(3)] mid 1(5) by simp
      have leftpart: "\<forall>i. lo \<le> i \<and> i \<le> mid \<longrightarrow> t (ws ! i) \<le> x"
      proof (intro allI impI)
        fix i assume i: "lo \<le> i \<and> i \<le> mid"
        from mid 1(5) have "mid < length ws" by simp
        from increasing_times_nth_le[OF 1(3) _ this, of i] i notleft show "t (ws ! i) \<le> x" by simp
      qed
      show ?thesis unfolding eq
      proof (intro conjI allI impI)
        show "lo \<le> indexAfterTime_search ws x (Suc mid) hi" using ih mid by simp
        show "indexAfterTime_search ws x (Suc mid) hi \<le> hi" using ih by simp
        show "t (ws ! i) \<le> x" if "lo \<le> i \<and> i < indexAfterTime_search ws x (Suc mid) hi" for i
        proof (cases "i \<le> mid")
          case True
          with leftpart that show ?thesis by simp
        next
          case False
          then have "Suc mid \<le> i" by simp
          with ih that show ?thesis by blast
        qed
        show "x < t (ws ! i)" if "indexAfterTime_search ws x (Suc mid) hi \<le> i \<and> i < hi" for i
          using ih that by blast
      qed
    qed
  qed
qed

lemma search_before_first:
  assumes "increasing_times ws" "ws \<noteq> []" "x < t (hd ws)"
  shows "indexAfterTime_search ws x 0 (length ws) = 0"
proof (rule ccontr)
  assume "indexAfterTime_search ws x 0 (length ws) \<noteq> 0"
  then have "0 < indexAfterTime_search ws x 0 (length ws)" by simp
  with indexAfterTime_search_correct[OF assms(1), of 0 "length ws" x]
  have "t (ws ! 0) \<le> x" by simp
  with assms(2,3) show False by (simp add: hd_conv_nth)
qed

lemma search_from_last:
  assumes "increasing_times ws" "ws \<noteq> []" "t (last ws) \<le> x"
  shows "indexAfterTime_search ws x 0 (length ws) = length ws"
proof (rule ccontr)
  assume ne: "indexAfterTime_search ws x 0 (length ws) \<noteq> length ws"
  from indexAfterTime_search_correct[OF assms(1), of 0 "length ws" x]
  have le: "indexAfterTime_search ws x 0 (length ws) \<le> length ws"
    and after: "\<forall>i. indexAfterTime_search ws x 0 (length ws) \<le> i \<and> i < length ws
                  \<longrightarrow> x < t (ws ! i)"
    by simp_all
  from ne le assms(2) have "indexAfterTime_search ws x 0 (length ws) \<le> length ws - 1
      \<and> length ws - 1 < length ws" by simp
  with after have "x < t (ws ! (length ws - 1))" by blast
  with assms(2,3) show False by (simp add: last_conv_nth)
qed

lemma first_le_last:
  assumes "increasing_times ws" "ws \<noteq> []"
  shows "t (hd ws) \<le> t (last ws)"
  using increasing_times_nth_le[OF assms(1), of 0 "length ws - 1"] assms(2)
  by (simp add: hd_conv_nth last_conv_nth)

text \<open>
  Claim C8.  For a trajectory with at least one waypoint and increasing times:
  \<open>evaluate\<close> fails with a domain error before the first and after the last waypoint's
  time; it succeeds at the first waypoint's time, and at the last waypoint's time it
  gives the last waypoint's state; \<open>getWaypointIndexAfterTime\<close> fails with a domain error
  after the last waypoint's time and answers 0 before the first waypoint's time.
\<close>

theorem evaluate_boundaries:
  assumes "ws \<noteq> []" and "increasing_times ws"
  shows "(x < t (hd ws) \<longrightarrow> is_DomainError (evaluate interpolate ws x))
       \<and> (t (last ws) < x \<longrightarrow> is_DomainError (evaluate interpolate ws x))
       \<and> \<not> isl (evaluate interpolate ws (t (hd ws)))
       \<and> evaluate interpolate ws (t (last ws)) = Inr (state (last ws))
       \<and> (t (last ws) < x \<longrightarrow> is_DomainError (getWaypointIndexAfterTime ws x))
       \<and> (x < t (hd ws) \<longrightarrow> getWaypointIndexAfterTime ws x = Inr 0)"
proof (intro conjI impI)
  show "is_DomainError (evaluate interpolate ws x)" if "x < t (hd ws)"
    using that by (simp add: evaluate_def)
  show "is_DomainError (evaluate interpolate ws x)" if "t (last ws) < x"
    using that by (simp add: evaluate_def)
  show "\<not> isl (evaluate interpolate ws (t (hd ws)))"
    using assms first_le_last[OF assms(2,1)]
    by (simp add: evaluate_def getWaypointIndexAfterTime_def)
  show "evaluate interpolate ws (t (last ws)) = Inr (state (last ws))"
    using assms first_le_last[OF assms(2,1)] search_from_last[OF assms(2,1), of "t (last ws)"]
    by (simp add: evaluate_def getWaypointIndexAfterTime_def)
  show "is_DomainError (getWaypointIndexAfterTime ws x)" if "t (last ws) < x"
    using that by (simp add: getWaypointIndexAfterTime_def)
  show "getWaypointIndexAfterTime ws x = Inr 0" if "x < t (hd ws)"
    using that assms first_le_last[OF assms(2,1)] search_before_first[OF assms(2,1) that]
    by (simp add: getWaypointIndexAfterTime_def)
qed

theorem evaluate_boundaries_witness:
  "test_waypoints \<noteq> [] \<and> increasing_times test_waypoints
   \<and> is_DomainError (evaluate linear_interpolate test_waypoints (- 1))
   \<and> is_DomainError (evaluate linear_interpolate test_waypoints (5 / 2))
   \<and> \<not> isl (evaluate linear_interpolate test_waypoints 0)
   \<and> evaluate linear_interpolate test_waypoints 2 = Inr [2]
   \<and> is_DomainError (getWaypointIndexAfterTime test_waypoints (5 / 2))
   \<and> getWaypointIndexAfterTime test_waypoints (- 1) = Inr 0"
proof -
  have ne: "test_waypoints \<noteq> []" by (simp add: test_waypoints_def)
  have inc: "increasing_times test_waypoints"
    by (simp add: test_waypoints_def increasing_times_def)
  have ends: "t (hd test_waypoints) = 0" "t (last test_waypoints) = 2"
    "state (last test_waypoints) = [2]"
    by (simp_all add: test_waypoints_def)
  from evaluate_boundaries [OF ne inc, of "- 1" linear_interpolate]
       evaluate_boundaries [OF ne inc, of "5 / 2" linear_interpolate] ne inc ends
  show ?thesis by simp
qed

text \<open>The example of the specification: halfway between the first two waypoints.\<close>

lemma evaluate_midway:
  "evaluate linear_interpolate test_waypoints (1 / 2) = Inr [1 / 2]"
  by (simp add: evaluate_def getWaypointIndexAfterTime_def test_waypoints_def
      indexAfterTime_search.simps linear_interpolate_def)

end
